theory Spec2Isabelle
  imports Complex_Main
begin

section \<open>Errors, element types and tensors\<close>

text \<open>
  The module \<^verbatim>\<open>direct3d_s2/models/autoencoders/dense_vae.py\<close> builds a 3D shape VAE out of
  convolutions, normalisations and resampling blocks.  Every \<^verbatim>\<open>raise\<close> and every failing
  \<^verbatim>\<open>assert\<close> of the Python is a value \<open>Inl e\<close> of the result type \<open>error + 'a\<close>.
  Counts (channels, block counts, tensor extents) are natural numbers.
\<close>

datatype error =
    ValueError string
  | AssertionError string
  | IndexError
  | KeyError string
  | TypeError
  | RuntimeError string

datatype dtype = Float16 | Float32

definition bindE :: "error + 'a \<Rightarrow> ('a \<Rightarrow> error + 'b) \<Rightarrow> error + 'b" where
  "bindE m f = (case m of Inl e \<Rightarrow> Inl e | Inr a \<Rightarrow> f a)"

subsection \<open>Floating-point values\<close>

text \<open>
  The elements of a tensor are floating-point values: a finite value is the real number it
  denotes, and there are the two infinities and NaN.  Arithmetic follows IEEE 754 on the
  values that are not finite (\<open>0 * inf\<close>, \<open>inf - inf\<close> and everything computed from a NaN
  are NaN).  On finite values it is exact as long as the result stays within the range of
  the dtype, and a result beyond that range is an infinity.  Rounding within the range is
  not modelled, and the two zeros are one value.
\<close>

datatype fl = Fin real | PInf | NInf | NaN

text \<open>The largest finite value: \<open>65504\<close> in float16, \<open>(2 - 2^-23) * 2^127\<close> in float32.\<close>

definition fmax :: "dtype \<Rightarrow> real" where
  "fmax dt = (case dt of Float16 \<Rightarrow> 65504 | Float32 \<Rightarrow> (2 - 1 / 2 ^ 23) * 2 ^ 127)"

definition fl_of :: "dtype \<Rightarrow> real \<Rightarrow> fl" where
  "fl_of dt v = (if fmax dt < v then PInf else if v < - fmax dt then NInf else Fin v)"

fun fneg :: "fl \<Rightarrow> fl" where
  "fneg (Fin u) = Fin (- u)"
| "fneg PInf = NInf"
| "fneg NInf = PInf"
| "fneg NaN = NaN"

fun fadd :: "dtype \<Rightarrow> fl \<Rightarrow> fl \<Rightarrow> fl" where
  "fadd dt NaN b = NaN"
| "fadd dt a NaN = NaN"
| "fadd dt PInf NInf = NaN"
| "fadd dt NInf PInf = NaN"
| "fadd dt PInf b = PInf"
| "fadd dt a PInf = PInf"
| "fadd dt NInf b = NInf"
| "fadd dt a NInf = NInf"
| "fadd dt (Fin u) (Fin v) = fl_of dt (u + v)"

definition fsub :: "dtype \<Rightarrow> fl \<Rightarrow> fl \<Rightarrow> fl" where
  "fsub dt a b = fadd dt a (fneg b)"

fun fmul :: "dtype \<Rightarrow> fl \<Rightarrow> fl \<Rightarrow> fl" where
  "fmul dt NaN b = NaN"
| "fmul dt a NaN = NaN"
| "fmul dt (Fin u) (Fin v) = fl_of dt (u * v)"
| "fmul dt (Fin u) PInf = (if u = 0 then NaN else if 0 < u then PInf else NInf)"
| "fmul dt (Fin u) NInf = (if u = 0 then NaN else if 0 < u then NInf else PInf)"
| "fmul dt PInf (Fin v) = (if v = 0 then NaN else if 0 < v then PInf else NInf)"
| "fmul dt NInf (Fin v) = (if v = 0 then NaN else if 0 < v then NInf else PInf)"
| "fmul dt PInf PInf = PInf"
| "fmul dt PInf NInf = NInf"
| "fmul dt NInf PInf = NInf"
| "fmul dt NInf NInf = PInf"

fun fdiv :: "dtype \<Rightarrow> fl \<Rightarrow> fl \<Rightarrow> fl" where
  "fdiv dt NaN b = NaN"
| "fdiv dt a NaN = NaN"
| "fdiv dt (Fin u) (Fin v) =
     (if v = 0 then (if u = 0 then NaN else if 0 < u then PInf else NInf)
      else fl_of dt (u / v))"
| "fdiv dt (Fin u) PInf = Fin 0"
| "fdiv dt (Fin u) NInf = Fin 0"
| "fdiv dt PInf (Fin v) = (if 0 \<le> v then PInf else NInf)"
| "fdiv dt NInf (Fin v) = (if 0 \<le> v then NInf else PInf)"
| "fdiv dt PInf PInf = NaN"
| "fdiv dt PInf NInf = NaN"
| "fdiv dt NInf PInf = NaN"
| "fdiv dt NInf NInf = NaN"

text \<open>The sum of a list of values, accumulated from zero.\<close>

definition fsum :: "dtype \<Rightarrow> fl list \<Rightarrow> fl" where
  "fsum dt xs = foldr (fadd dt) xs (Fin 0)"

text \<open>\<open>v >= t\<close> against a Python number \<open>t\<close>: a comparison with NaN is false.\<close>

fun fl_ge :: "fl \<Rightarrow> real \<Rightarrow> bool" where
  "fl_ge (Fin v) t = (t \<le> v)"
| "fl_ge PInf t = True"
| "fl_ge NInf t = False"
| "fl_ge NaN t = False"


subsection \<open>Tensors\<close>

text \<open>A tensor is its shape, its elements in row-major order, and its dtype.\<close>

record tensor =
  shape :: "nat list"
  vals :: "fl list"
  t_dtype :: dtype


subsection \<open>Construction: fresh parameters come from a stream of numbers\<close>

text \<open>
  \<^verbatim>\<open>nn.Conv3d(...)\<close> draws its initial weight and bias from the random number generator.
  The generator is a stream \<open>g\<close>; a constructor takes what it needs from the front and
  returns the rest.  A constructor that can raise has type \<open>'a build\<close>.
\<close>

type_synonym rng = "nat \<Rightarrow> real"

type_synonym 'a build = "rng \<Rightarrow> error + ('a \<times> rng)"

definition draw :: "nat \<Rightarrow> rng \<Rightarrow> real list \<times> rng" where
  "draw n g = (map g [0..<n], \<lambda>i. g (n + i))"

definition retB :: "'a \<Rightarrow> 'a build" where
  "retB a g = Inr (a, g)"

text \<open>
  \<open>bindB r f\<close> continues after a constructor call whose outcome is \<open>r\<close>: an error is
  passed on, a value is handed to \<open>f\<close> together with the rest of the stream.
\<close>

definition bindB :: "error + ('a \<times> rng) \<Rightarrow> ('a \<Rightarrow> 'b build) \<Rightarrow> error + ('b \<times> rng)" where
  "bindB r f = (case r of Inl e \<Rightarrow> Inl e | Inr (a, g') \<Rightarrow> f a g')"

definition liftE :: "error + 'a \<Rightarrow> 'a build" where
  "liftE m g = (case m of Inl e \<Rightarrow> Inl e | Inr a \<Rightarrow> Inr (a, g))"

text \<open>\<^verbatim>\<open>[make() for _ in range(n)]\<close>\<close>

fun repeatB :: "nat \<Rightarrow> 'a build \<Rightarrow> 'a list build" where
  "repeatB 0 m g = retB [] g"
| "repeatB (Suc n) m g =
     bindB (m g) (\<lambda>x g. bindB (repeatB n m g) (\<lambda>xs g. retB (x # xs) g))"

section \<open>Leaf modules\<close>

subsection \<open>Conv3d\<close>

text \<open>
  \<^verbatim>\<open>nn.Conv3d(in_channels, out_channels, kernel_size, stride, padding)\<close> with a cubic
  kernel.  The weight has shape \<open>[out, in, k, k, k]\<close> and the bias shape \<open>[out]\<close>, both
  stored flat; fresh parameters are float32.
\<close>

record conv3d =
  c_in_channels :: nat
  c_out_channels :: nat
  c_kernel_size :: nat
  c_stride :: nat
  c_padding :: nat
  c_weight :: "real list"
  c_bias :: "real list"
  c_dtype :: dtype

definition new_Conv3d :: "nat \<Rightarrow> nat \<Rightarrow> nat \<Rightarrow> nat \<Rightarrow> nat \<Rightarrow> conv3d build" where
  "new_Conv3d cin cout k s p g =
     (case draw (cout * cin * k * k * k) g of (w, g1) \<Rightarrow>
      case draw cout g1 of (b, g2) \<Rightarrow>
        Inr (\<lparr>c_in_channels = cin, c_out_channels = cout, c_kernel_size = k,
              c_stride = s, c_padding = p, c_weight = w, c_bias = b,
              c_dtype = Float32\<rparr>, g2))"

text \<open>
  Modelled from the spec: \<^verbatim>\<open>zero_module\<close> (\<^verbatim>\<open>modules/utils.py\<close> is not among the sources).
  The spec calls it the zero-initialization utility: the second convolution of a residual
  block has its parameters "initialized to exactly zero so the block starts as a
  pass-through of the shortcut path".  It zeroes every parameter of the module it is given.
\<close>

definition zero_module :: "conv3d \<Rightarrow> conv3d" where
  "zero_module c = c\<lparr>c_weight := map (\<lambda>_. 0) (c_weight c), c_bias := map (\<lambda>_. 0) (c_bias c)\<rparr>"

subsection \<open>The normalization selector\<close>

text \<open>
  Modelled from the spec: \<^verbatim>\<open>GroupNorm32\<close> and \<^verbatim>\<open>ChannelLayerNorm32\<close> (\<^verbatim>\<open>modules/norm.py\<close> is
  not among the sources).  The spec names them the group-wise and the channel-wise variant of
  a per-channel normalization.  Only what the constructors record is modelled here: the
  kind, the group count and the channel count.  A group normalization needs a channel count
  that its group count divides, as \<^verbatim>\<open>torch.nn.GroupNorm\<close> checks; what the layers compute is a
  parameter of the forward functions below.
\<close>

datatype norm_kind = GroupNorm32 nat | ChannelLayerNorm32

record norm =
  n_kind :: norm_kind
  n_num_channels :: nat
  n_dtype :: dtype

definition GroupNorm32_new :: "nat \<Rightarrow> nat \<Rightarrow> error + norm" where
  "GroupNorm32_new num_groups num_channels =
     (if num_channels mod num_groups \<noteq> 0
      then Inl (ValueError ''num_channels must be divisible by num_groups'')
      else Inr \<lparr>n_kind = GroupNorm32 num_groups, n_num_channels = num_channels,
                n_dtype = Float32\<rparr>)"

definition ChannelLayerNorm32_new :: "nat \<Rightarrow> error + norm" where
  "ChannelLayerNorm32_new num_channels =
     Inr \<lparr>n_kind = ChannelLayerNorm32, n_num_channels = num_channels, n_dtype = Float32\<rparr>"

definition norm_layer :: "string \<Rightarrow> nat \<Rightarrow> error + norm" where
  "norm_layer norm_type channels =
     (if norm_type = ''group'' then GroupNorm32_new 32 channels
      else if norm_type = ''layer'' then ChannelLayerNorm32_new channels
      else Inl (ValueError (''Invalid norm type '' @ norm_type)))"

section \<open>Blocks\<close>

subsection \<open>ResBlock3d\<close>

text \<open>\<open>rb_skip_connection = None\<close> is \<^verbatim>\<open>nn.Identity()\<close>.\<close>

record ResBlock3d =
  rb_channels :: nat
  rb_out_channels :: nat
  rb_norm1 :: norm
  rb_norm2 :: norm
  rb_conv1 :: conv3d
  rb_conv2 :: conv3d
  rb_skip_connection :: "conv3d option"

text \<open>
  \<open>or_else a b\<close> is Python's \<^verbatim>\<open>a or b\<close> on an optional count: \<^verbatim>\<open>None\<close> and \<^verbatim>\<open>0\<close> are both
  falsy.  The callers in this file leave \<^verbatim>\<open>norm_type\<close> at its default \<^verbatim>\<open>"layer"\<close>; in the
  model the argument is always explicit.
\<close>

definition or_else :: "nat option \<Rightarrow> nat \<Rightarrow> nat" where
  "or_else a b = (case a of None \<Rightarrow> b | Some c \<Rightarrow> if c = 0 then b else c)"

definition ResBlock3d_init :: "nat \<Rightarrow> nat option \<Rightarrow> string \<Rightarrow> ResBlock3d build" where
  "ResBlock3d_init channels out_channels norm_type g =
     (let oc = or_else out_channels channels in
      bindB (liftE (norm_layer norm_type channels) g) (\<lambda>norm1 g.
      bindB (liftE (norm_layer norm_type oc) g) (\<lambda>norm2 g.
      bindB (new_Conv3d channels oc 3 1 1 g) (\<lambda>conv1 g.
      bindB (new_Conv3d oc oc 3 1 1 g) (\<lambda>conv2 g.
      bindB (if channels \<noteq> oc
             then bindB (new_Conv3d channels oc 1 1 0 g) (\<lambda>c g. retB (Some c) g)
             else retB None g) (\<lambda>skip g.
      retB \<lparr>rb_channels = channels, rb_out_channels = oc,
            rb_norm1 = norm1, rb_norm2 = norm2,
            rb_conv1 = conv1, rb_conv2 = zero_module conv2,
            rb_skip_connection = skip\<rparr> g))))))"

subsection \<open>DownsampleBlock3d and UpsampleBlock3d\<close>

text \<open>
  \<open>ds_conv = None\<close> and \<open>us_conv = None\<close> stand for an object without the attribute
  \<^verbatim>\<open>conv\<close>, which is what \<^verbatim>\<open>hasattr(self, "conv")\<close> tests in \<^verbatim>\<open>forward\<close>.
\<close>

record DownsampleBlock3d =
  ds_in_channels :: nat
  ds_out_channels :: nat
  ds_conv :: "conv3d option"

definition DownsampleBlock3d_init :: "nat \<Rightarrow> nat \<Rightarrow> string \<Rightarrow> DownsampleBlock3d build" where
  "DownsampleBlock3d_init in_channels out_channels mode g =
     (if mode \<notin> set [''conv'', ''avgpool'']
      then Inl (AssertionError (''Invalid mode '' @ mode))
      else if mode = ''conv''
      then bindB (new_Conv3d in_channels out_channels 2 2 0 g) (\<lambda>c g.
           retB \<lparr>ds_in_channels = in_channels, ds_out_channels = out_channels,
                 ds_conv = Some c\<rparr> g)
      else if mode = ''avgpool''
      then (if in_channels = out_channels
            then retB \<lparr>ds_in_channels = in_channels, ds_out_channels = out_channels,
                       ds_conv = None\<rparr> g
            else Inl (AssertionError
                   ''Pooling mode requires in_channels to be equal to out_channels''))
      else retB \<lparr>ds_in_channels = in_channels, ds_out_channels = out_channels,
                 ds_conv = None\<rparr> g)"

record UpsampleBlock3d =
  us_in_channels :: nat
  us_out_channels :: nat
  us_conv :: "conv3d option"

definition UpsampleBlock3d_init :: "nat \<Rightarrow> nat \<Rightarrow> string \<Rightarrow> UpsampleBlock3d build" where
  "UpsampleBlock3d_init in_channels out_channels mode g =
     (if mode \<notin> set [''conv'', ''nearest'']
      then Inl (AssertionError (''Invalid mode '' @ mode))
      else if mode = ''conv''
      then bindB (new_Conv3d in_channels (out_channels * 8) 3 1 1 g) (\<lambda>c g.
           retB \<lparr>us_in_channels = in_channels, us_out_channels = out_channels,
                 us_conv = Some c\<rparr> g)
      else if mode = ''nearest''
      then (if in_channels = out_channels
            then retB \<lparr>us_in_channels = in_channels, us_out_channels = out_channels,
                       us_conv = None\<rparr> g
            else Inl (AssertionError
                   ''Nearest mode requires in_channels to be equal to out_channels''))
      else retB \<lparr>us_in_channels = in_channels, us_out_channels = out_channels,
                 us_conv = None\<rparr> g)"

subsection \<open>Module containers and \<^verbatim>\<open>nn.Module.apply\<close>\<close>

text \<open>
  \<^verbatim>\<open>self.blocks\<close> is an \<^verbatim>\<open>nn.ModuleList\<close> that mixes residual and resampling blocks;
  \<^verbatim>\<open>out_layer\<close> is an \<^verbatim>\<open>nn.Sequential\<close> of a normalization, \<^verbatim>\<open>nn.SiLU()\<close> and a convolution.
\<close>

datatype block = Res ResBlock3d | Down DownsampleBlock3d | Up UpsampleBlock3d

datatype layer = NormL norm | SiLU | ConvL conv3d

text \<open>
  \<^verbatim>\<open>module.apply(fn)\<close> calls \<^verbatim>\<open>fn\<close> on every submodule and on the module itself.  Only the
  convolutions and the normalizations own parameters, so a function on modules is given by
  what it does to these two kinds of leaf.
\<close>

record module_fn =
  on_conv :: "conv3d \<Rightarrow> conv3d"
  on_norm :: "norm \<Rightarrow> norm"

definition ResBlock3d_apply :: "module_fn \<Rightarrow> ResBlock3d \<Rightarrow> ResBlock3d" where
  "ResBlock3d_apply f rb =
     rb\<lparr>rb_norm1 := on_norm f (rb_norm1 rb), rb_norm2 := on_norm f (rb_norm2 rb),
        rb_conv1 := on_conv f (rb_conv1 rb), rb_conv2 := on_conv f (rb_conv2 rb),
        rb_skip_connection := map_option (on_conv f) (rb_skip_connection rb)\<rparr>"

fun block_apply :: "module_fn \<Rightarrow> block \<Rightarrow> block" where
  "block_apply f (Res rb) = Res (ResBlock3d_apply f rb)"
| "block_apply f (Down d) = Down (d\<lparr>ds_conv := map_option (on_conv f) (ds_conv d)\<rparr>)"
| "block_apply f (Up u) = Up (u\<lparr>us_conv := map_option (on_conv f) (us_conv u)\<rparr>)"

fun layer_apply :: "module_fn \<Rightarrow> layer \<Rightarrow> layer" where
  "layer_apply f (NormL n) = NormL (on_norm f n)"
| "layer_apply f SiLU = SiLU"
| "layer_apply f (ConvL c) = ConvL (on_conv f c)"

text \<open>
  Modelled from the spec: \<^verbatim>\<open>convert_module_to_f16\<close> and \<^verbatim>\<open>convert_module_to_f32\<close>
  (\<^verbatim>\<open>modules/utils.py\<close> is not among the sources).  The spec calls them the precision-cast
  utility: applied to a module, it casts the module's parameters to the numeric type.
\<close>

definition convert_module_to_f16 :: module_fn where
  "convert_module_to_f16 =
     \<lparr>on_conv = (\<lambda>c. c\<lparr>c_dtype := Float16\<rparr>), on_norm = (\<lambda>n. n\<lparr>n_dtype := Float16\<rparr>)\<rparr>"

definition convert_module_to_f32 :: module_fn where
  "convert_module_to_f32 =
     \<lparr>on_conv = (\<lambda>c. c\<lparr>c_dtype := Float32\<rparr>), on_norm = (\<lambda>n. n\<lparr>n_dtype := Float32\<rparr>)\<rparr>"

text \<open>The numeric types of the parameters a module owns (\<^verbatim>\<open>p.dtype for p in m.parameters()\<close>).\<close>

definition ResBlock3d_dtypes :: "ResBlock3d \<Rightarrow> dtype list" where
  "ResBlock3d_dtypes rb =
     [n_dtype (rb_norm1 rb), n_dtype (rb_norm2 rb), c_dtype (rb_conv1 rb), c_dtype (rb_conv2 rb)]
     @ (case rb_skip_connection rb of None \<Rightarrow> [] | Some c \<Rightarrow> [c_dtype c])"

fun block_dtypes :: "block \<Rightarrow> dtype list" where
  "block_dtypes (Res rb) = ResBlock3d_dtypes rb"
| "block_dtypes (Down d) = (case ds_conv d of None \<Rightarrow> [] | Some c \<Rightarrow> [c_dtype c])"
| "block_dtypes (Up u) = (case us_conv u of None \<Rightarrow> [] | Some c \<Rightarrow> [c_dtype c])"

fun layer_dtypes :: "layer \<Rightarrow> dtype list" where
  "layer_dtypes (NormL n) = [n_dtype n]"
| "layer_dtypes SiLU = []"
| "layer_dtypes (ConvL c) = [c_dtype c]"

text \<open>The kinds of the normalizations inside a block.\<close>

fun block_norm_kinds :: "block \<Rightarrow> norm_kind list" where
  "block_norm_kinds (Res rb) = [n_kind (rb_norm1 rb), n_kind (rb_norm2 rb)]"
| "block_norm_kinds (Down d) = []"
| "block_norm_kinds (Up u) = []"

section \<open>SparseStructureEncoder\<close>

record SparseStructureEncoder =
  enc_in_channels :: nat
  enc_latent_channels :: nat
  enc_num_res_blocks :: nat
  enc_channels :: "nat list"
  enc_num_res_blocks_middle :: nat
  enc_norm_type :: string
  enc_use_fp16 :: bool
  enc_dtype :: dtype
  enc_use_checkpoint :: bool
  enc_input_layer :: conv3d
  enc_blocks :: "block list"
  enc_middle_block :: "ResBlock3d list"
  enc_out_layer :: "layer list"

definition Encoder_convert_to_fp16 :: "SparseStructureEncoder \<Rightarrow> SparseStructureEncoder" where
  "Encoder_convert_to_fp16 self =
     self\<lparr>enc_use_fp16 := True, enc_dtype := Float16,
          enc_blocks := map (block_apply convert_module_to_f16) (enc_blocks self),
          enc_middle_block :=
            map (ResBlock3d_apply convert_module_to_f16) (enc_middle_block self)\<rparr>"

definition Encoder_convert_to_fp32 :: "SparseStructureEncoder \<Rightarrow> SparseStructureEncoder" where
  "Encoder_convert_to_fp32 self =
     self\<lparr>enc_use_fp16 := False, enc_dtype := Float32,
          enc_blocks := map (block_apply convert_module_to_f32) (enc_blocks self),
          enc_middle_block :=
            map (ResBlock3d_apply convert_module_to_f32) (enc_middle_block self)\<rparr>"

text \<open>
  The loop \<^verbatim>\<open>for i, ch in enumerate(channels)\<close> of the constructor, as a recursion on the
  channel list: the body sees \<open>ch = channels[i]\<close>; the test \<^verbatim>\<open>i < len(channels) - 1\<close> holds
  exactly when an entry follows, and that entry is \<^verbatim>\<open>channels[i+1]\<close>.  The blocks are built
  with \<^verbatim>\<open>ResBlock3d(ch, ch)\<close> and \<^verbatim>\<open>DownsampleBlock3d(ch, channels[i+1])\<close>: the defaults
  \<^verbatim>\<open>norm_type="layer"\<close> and \<^verbatim>\<open>mode="conv"\<close> apply.
\<close>

fun enc_stages :: "nat \<Rightarrow> nat list \<Rightarrow> block list build" where
  "enc_stages num_res_blocks [] g = retB [] g"
| "enc_stages num_res_blocks (ch # rest) g =
     bindB (repeatB num_res_blocks (ResBlock3d_init ch (Some ch) ''layer'') g) (\<lambda>res g.
     bindB (case rest of
              [] \<Rightarrow> retB [] g
            | nxt # _ \<Rightarrow> bindB (DownsampleBlock3d_init ch nxt ''conv'' g) (\<lambda>d g.
                          retB [Down d] g)) (\<lambda>down g.
     bindB (enc_stages num_res_blocks rest g) (\<lambda>blocks g.
     retB (map Res res @ down @ blocks) g)))"

text \<open>\<^verbatim>\<open>channels[0]\<close> and \<^verbatim>\<open>channels[-1]\<close> raise \<^verbatim>\<open>IndexError\<close> on an empty list.\<close>

definition SparseStructureEncoder_init ::
  "nat \<Rightarrow> nat \<Rightarrow> nat \<Rightarrow> nat list \<Rightarrow> nat \<Rightarrow> string \<Rightarrow> bool \<Rightarrow> bool \<Rightarrow> SparseStructureEncoder build" where
  "SparseStructureEncoder_init in_channels latent_channels num_res_blocks channels
       num_res_blocks_middle norm_type use_fp16 use_checkpoint g =
     (case channels of
        [] \<Rightarrow> Inl IndexError
      | c0 # _ \<Rightarrow>
          bindB (new_Conv3d in_channels c0 3 1 1 g) (\<lambda>input_layer g.
          bindB (enc_stages num_res_blocks channels g) (\<lambda>blocks g.
          bindB (repeatB num_res_blocks_middle
                   (ResBlock3d_init (last channels) (Some (last channels)) ''layer'') g)
            (\<lambda>middle_block g.
          bindB (liftE (norm_layer norm_type (last channels)) g) (\<lambda>out_norm g.
          bindB (new_Conv3d (last channels) (latent_channels * 2) 3 1 1 g) (\<lambda>out_conv g.
          retB (let self = \<lparr>enc_in_channels = in_channels,
                             enc_latent_channels = latent_channels,
                             enc_num_res_blocks = num_res_blocks,
                             enc_channels = channels,
                             enc_num_res_blocks_middle = num_res_blocks_middle,
                             enc_norm_type = norm_type,
                             enc_use_fp16 = use_fp16,
                             enc_dtype = (if use_fp16 then Float16 else Float32),
                             enc_use_checkpoint = use_checkpoint,
                             enc_input_layer = input_layer,
                             enc_blocks = blocks,
                             enc_middle_block = middle_block,
                             enc_out_layer = [NormL out_norm, SiLU, ConvL out_conv]\<rparr>
                in if use_fp16 then Encoder_convert_to_fp16 self else self) g))))))"

section \<open>SparseStructureDecoder\<close>

record SparseStructureDecoder =
  dec_out_channels :: nat
  dec_latent_channels :: nat
  dec_num_res_blocks :: nat
  dec_channels :: "nat list"
  dec_num_res_blocks_middle :: nat
  dec_norm_type :: string
  dec_use_fp16 :: bool
  dec_dtype :: dtype
  dec_use_checkpoint :: bool
  dec_input_layer :: conv3d
  dec_middle_block :: "ResBlock3d list"
  dec_blocks :: "block list"
  dec_out_layer :: "layer list"

text \<open>\<^verbatim>\<open>self.apply(fn)\<close> on the decoder reaches every submodule.\<close>

definition Decoder_apply :: "module_fn \<Rightarrow> SparseStructureDecoder \<Rightarrow> SparseStructureDecoder" where
  "Decoder_apply f self =
     self\<lparr>dec_input_layer := on_conv f (dec_input_layer self),
          dec_middle_block := map (ResBlock3d_apply f) (dec_middle_block self),
          dec_blocks := map (block_apply f) (dec_blocks self),
          dec_out_layer := map (layer_apply f) (dec_out_layer self)\<rparr>"

definition Decoder_convert_to_fp16 :: "SparseStructureDecoder \<Rightarrow> SparseStructureDecoder" where
  "Decoder_convert_to_fp16 self =
     Decoder_apply convert_module_to_f16 (self\<lparr>dec_use_fp16 := True, dec_dtype := Float16\<rparr>)"


fun dec_stages :: "nat \<Rightarrow> nat list \<Rightarrow> block list build" where
  "dec_stages num_res_blocks [] g = retB [] g"
| "dec_stages num_res_blocks (ch # rest) g =
     bindB (repeatB num_res_blocks (ResBlock3d_init ch (Some ch) ''layer'') g) (\<lambda>res g.
     bindB (case rest of
              [] \<Rightarrow> retB [] g
            | nxt # _ \<Rightarrow> bindB (UpsampleBlock3d_init ch nxt ''conv'' g) (\<lambda>u g.
                          retB [Up u] g)) (\<lambda>up g.
     bindB (dec_stages num_res_blocks rest g) (\<lambda>blocks g.
     retB (map Res res @ up @ blocks) g)))"

definition SparseStructureDecoder_init ::
  "nat \<Rightarrow> nat \<Rightarrow> nat \<Rightarrow> nat list \<Rightarrow> nat \<Rightarrow> string \<Rightarrow> bool \<Rightarrow> bool \<Rightarrow> SparseStructureDecoder build" where
  "SparseStructureDecoder_init out_channels latent_channels num_res_blocks channels
       num_res_blocks_middle norm_type use_fp16 use_checkpoint g =
     (case channels of
        [] \<Rightarrow> Inl IndexError
      | c0 # _ \<Rightarrow>
          bindB (new_Conv3d latent_channels c0 3 1 1 g) (\<lambda>input_layer g.
          bindB (repeatB num_res_blocks_middle (ResBlock3d_init c0 (Some c0) ''layer'') g)
            (\<lambda>middle_block g.
          bindB (dec_stages num_res_blocks channels g) (\<lambda>blocks g.
          bindB (liftE (norm_layer norm_type (last channels)) g) (\<lambda>out_norm g.
          bindB (new_Conv3d (last channels) out_channels 3 1 1 g) (\<lambda>out_conv g.
          retB (let self = \<lparr>dec_out_channels = out_channels,
                             dec_latent_channels = latent_channels,
                             dec_num_res_blocks = num_res_blocks,
                             dec_channels = channels,
                             dec_num_res_blocks_middle = num_res_blocks_middle,
                             dec_norm_type = norm_type,
                             dec_use_fp16 = use_fp16,
                             dec_dtype = (if use_fp16 then Float16 else Float32),
                             dec_use_checkpoint = use_checkpoint,
                             dec_input_layer = input_layer,
                             dec_middle_block = middle_block,
                             dec_blocks = blocks,
                             dec_out_layer = [NormL out_norm, SiLU, ConvL out_conv]\<rparr>
                in if use_fp16 then Decoder_convert_to_fp16 self else self) g))))))"

section \<open>Forward passes\<close>

subsection \<open>Tensor operations\<close>

text \<open>
  The network works on batched 5-axis tensors \<open>[B, C, D, H, W]\<close> (spec, data model); a
  tensor of another rank is rejected by every layer of the model.
\<close>

fun dims5 :: "nat list \<Rightarrow> (nat \<times> nat \<times> nat \<times> nat \<times> nat) option" where
  "dims5 [B, C, D, H, W] = Some (B, C, D, H, W)"
| "dims5 _ = None"

definition at5 :: "tensor \<Rightarrow> nat \<Rightarrow> nat \<Rightarrow> nat \<Rightarrow> nat \<Rightarrow> nat \<Rightarrow> fl" where
  "at5 x b c d h w =
     (case dims5 (shape x) of
        None \<Rightarrow> Fin 0
      | Some (B, C, D, H, W) \<Rightarrow> vals x ! ((((b * C + c) * D + d) * H + h) * W + w))"

definition tab5 ::
  "dtype \<Rightarrow> nat \<Rightarrow> nat \<Rightarrow> nat \<Rightarrow> nat \<Rightarrow> nat \<Rightarrow> (nat \<Rightarrow> nat \<Rightarrow> nat \<Rightarrow> nat \<Rightarrow> nat \<Rightarrow> fl)
     \<Rightarrow> tensor" where
  "tab5 dt B C D H W f =
     \<lparr>shape = [B, C, D, H, W],
      vals = concat (map (\<lambda>b. concat (map (\<lambda>c. concat (map (\<lambda>d. concat (map (\<lambda>h.
               map (\<lambda>w. f b c d h w) [0..<W]) [0..<H])) [0..<D])) [0..<C])) [0..<B]),
      t_dtype = dt\<rparr>"

definition map_t :: "(fl \<Rightarrow> fl) \<Rightarrow> tensor \<Rightarrow> tensor" where
  "map_t f x = x\<lparr>vals := map f (vals x)\<rparr>"

definition sigmoid :: "real \<Rightarrow> real" where
  "sigmoid v = 1 / (1 + exp (- v))"

text \<open>\<^verbatim>\<open>sigmoid\<close> on a floating-point value: its limits at the infinities, NaN at NaN.\<close>

fun fsigmoid :: "fl \<Rightarrow> fl" where
  "fsigmoid (Fin v) = Fin (sigmoid v)"
| "fsigmoid PInf = Fin 1"
| "fsigmoid NInf = Fin 0"
| "fsigmoid NaN = NaN"

text \<open>\<^verbatim>\<open>F.silu(x)\<close> is \<open>x * sigmoid(x)\<close>.\<close>

definition silu :: "tensor \<Rightarrow> tensor" where
  "silu x = map_t (\<lambda>v. fmul (t_dtype x) v (fsigmoid v)) x"

text \<open>
  \<^verbatim>\<open>h + self.skip_connection(x)\<close>.  Both summands of a residual block have the shape
  \<open>[B, out_channels, D, H, W]\<close>, so the sum is elementwise; broadcasting of unequal
  shapes is not modelled and reported as an error.  The sum of two float16 tensors is
  float16; if one summand is float32, so is the sum.
\<close>

definition promote :: "dtype \<Rightarrow> dtype \<Rightarrow> dtype" where
  "promote a b = (if a = Float16 \<and> b = Float16 then Float16 else Float32)"

definition tensor_add :: "tensor \<Rightarrow> tensor \<Rightarrow> error + tensor" where
  "tensor_add a b =
     (if shape a = shape b
      then Inr \<lparr>shape = shape a,
                vals = map (\<lambda>(u, v). fadd (promote (t_dtype a) (t_dtype b)) u v)
                         (zip (vals a) (vals b)),
                t_dtype = promote (t_dtype a) (t_dtype b)\<rparr>
      else Inl (RuntimeError ''add: shapes differ''))"

subsection \<open>Conv3d.forward\<close>

text \<open>
  The cross-correlation of \<^verbatim>\<open>torch.nn.Conv3d\<close> with zero padding: the output extent along
  an axis of extent \<open>D\<close> is \<open>(D + 2 * padding - kernel) div stride + 1\<close>, and
  \<open>out[b, o, d, h, w] = bias[o] + \<Sum> weight[o, c, i, j, l] * padded[b, c, d*s+i, h*s+j, w*s+l]\<close>.
  \<^verbatim>\<open>torch\<close> checks the shapes first: a weight without output channels, an input with
  another channel count than the weight's, a kernel larger than the padded input.  Then the
  input must have the dtype of the parameters
  (\<^verbatim>\<open>RuntimeError: Input type and weight type should be the same\<close>); the output has that
  dtype as well.
\<close>

definition padded :: "tensor \<Rightarrow> nat \<Rightarrow> nat \<Rightarrow> nat \<Rightarrow> nat \<Rightarrow> nat \<Rightarrow> nat \<Rightarrow> fl" where
  "padded x p b c d h w =
     (case dims5 (shape x) of
        None \<Rightarrow> Fin 0
      | Some (B, C, D, H, W) \<Rightarrow>
          if p \<le> d \<and> d < D + p \<and> p \<le> h \<and> h < H + p \<and> p \<le> w \<and> w < W + p
          then at5 x b c (d - p) (h - p) (w - p) else Fin 0)"

definition weight_at :: "conv3d \<Rightarrow> nat \<Rightarrow> nat \<Rightarrow> nat \<Rightarrow> nat \<Rightarrow> nat \<Rightarrow> real" where
  "weight_at c oc ic i j l =
     c_weight c ! ((((oc * c_in_channels c + ic) * c_kernel_size c + i) * c_kernel_size c + j)
                     * c_kernel_size c + l)"

definition conv3d_forward :: "conv3d \<Rightarrow> tensor \<Rightarrow> error + tensor" where
  "conv3d_forward c x =
     (case dims5 (shape x) of
        None \<Rightarrow> Inl (RuntimeError ''conv3d: expected a 5D input'')
      | Some (B, C, D, H, W) \<Rightarrow>
          let k = c_kernel_size c; s = c_stride c; p = c_padding c; dt = c_dtype c in
          if c_out_channels c = 0
          then Inl (RuntimeError ''conv3d: expected weight to be at least 1 at dimension 0'')
          else if C \<noteq> c_in_channels c
          then Inl (RuntimeError ''conv3d: wrong number of input channels'')
          else if D + 2 * p < k \<or> H + 2 * p < k \<or> W + 2 * p < k
          then Inl (RuntimeError ''conv3d: kernel larger than the padded input'')
          else if t_dtype x \<noteq> dt
          then Inl (RuntimeError ''conv3d: input type and weight type should be the same'')
          else Inr (tab5 dt B (c_out_channels c)
                      ((D + 2 * p - k) div s + 1) ((H + 2 * p - k) div s + 1)
                      ((W + 2 * p - k) div s + 1)
                      (\<lambda>b oc d h w. fadd dt (Fin (c_bias c ! oc))
                         (fsum dt (map (\<lambda>ic.
                          fsum dt (map (\<lambda>i.
                          fsum dt (map (\<lambda>j.
                          fsum dt (map (\<lambda>l.
                            fmul dt (Fin (weight_at c oc ic i j l))
                              (padded x p b ic (d * s + i) (h * s + j) (w * s + l)))
                          [0..<k])) [0..<k])) [0..<k])) [0..<C])))))"

subsection \<open>Resampling primitives\<close>

text \<open>\<^verbatim>\<open>F.avg_pool3d(x, k)\<close>: windows of \<open>k\<close> voxels per axis, stride \<open>k\<close>, no padding.\<close>

definition avg_pool3d :: "tensor \<Rightarrow> nat \<Rightarrow> error + tensor" where
  "avg_pool3d x k =
     (case dims5 (shape x) of
        None \<Rightarrow> Inl (RuntimeError ''avg_pool3d: expected a 5D input'')
      | Some (B, C, D, H, W) \<Rightarrow>
          let dt = t_dtype x in
          if D < k \<or> H < k \<or> W < k
          then Inl (RuntimeError ''avg_pool3d: output size is too small'')
          else Inr (tab5 dt B C ((D - k) div k + 1) ((H - k) div k + 1) ((W - k) div k + 1)
                      (\<lambda>b c d h w.
                         fdiv dt
                           (fsum dt (map (\<lambda>i.
                            fsum dt (map (\<lambda>j.
                            fsum dt (map (\<lambda>l.
                              at5 x b c (d * k + i) (h * k + j) (w * k + l))
                            [0..<k])) [0..<k])) [0..<k]))
                           (Fin (real (k * k * k))))))"

text \<open>\<^verbatim>\<open>F.interpolate(x, scale_factor=s, mode="nearest")\<close>.\<close>

definition interpolate_nearest :: "tensor \<Rightarrow> nat \<Rightarrow> error + tensor" where
  "interpolate_nearest x s =
     (case dims5 (shape x) of
        None \<Rightarrow> Inl (RuntimeError ''interpolate: expected a 5D input'')
      | Some (B, C, D, H, W) \<Rightarrow>
          Inr (tab5 (t_dtype x) B C (D * s) (H * s) (W * s)
                 (\<lambda>b c d h w. at5 x b c (d div s) (h div s) (w div s))))"

text \<open>
  Modelled from the spec: \<^verbatim>\<open>pixel_shuffle_3d\<close> (\<^verbatim>\<open>modules/spatial.py\<close> is not among the
  sources).  The spec describes "a reshuffle operation that redistributes the extra channel
  capacity into a 2x expansion of each of the 3 spatial axes (the 3D analogue of a
  pixel-shuffle: the 8-fold channel multiplier is consumed as a 2x2x2 spatial block)".
  With scale factor \<open>r\<close>, \<open>r^3\<close> input channels feed one output channel, and the channel
  count must be a multiple of \<open>r^3\<close>.
\<close>

definition pixel_shuffle_3d :: "tensor \<Rightarrow> nat \<Rightarrow> error + tensor" where
  "pixel_shuffle_3d x r =
     (case dims5 (shape x) of
        None \<Rightarrow> Inl (RuntimeError ''pixel_shuffle_3d: expected a 5D input'')
      | Some (B, C, D, H, W) \<Rightarrow>
          if C mod (r * r * r) \<noteq> 0
          then Inl (RuntimeError ''pixel_shuffle_3d: invalid shape'')
          else Inr (tab5 (t_dtype x) B (C div (r * r * r)) (D * r) (H * r) (W * r)
                      (\<lambda>b c d h w.
                         at5 x b (c * (r * r * r) + (d mod r) * (r * r) + (h mod r) * r + (w mod r))
                           (d div r) (h div r) (w div r))))"

subsection \<open>Normalization layers\<close>

text \<open>
  Modelled from the spec: the \<^verbatim>\<open>forward\<close> of \<^verbatim>\<open>GroupNorm32\<close> and \<^verbatim>\<open>ChannelLayerNorm32\<close>
  (\<^verbatim>\<open>modules/norm.py\<close> is not among the sources).  The spec names them per-channel
  normalization strategies: the result has the shape of the input, and, as the names say,
  is computed in 32 bits and returned in the dtype of the input.  The values a layer
  computes are the parameter \<open>nv\<close>: \<open>nv n x\<close> are the elements of the output of the layer
  \<open>n\<close> on \<open>x\<close>.  A layer raises on an input whose channel count is not its own, and a group
  normalization raises as \<^verbatim>\<open>torch.nn.functional.group_norm\<close> does, with
  \<^verbatim>\<open>ValueError: Expected more than 1 value per channel when training\<close>, when
  \<open>(B * C div G) * D * H * W = 1\<close>: when a group holds a single value.
\<close>

type_synonym norm_values = "norm \<Rightarrow> tensor \<Rightarrow> fl list"

definition norm_forward :: "norm_values \<Rightarrow> norm \<Rightarrow> tensor \<Rightarrow> error + tensor" where
  "norm_forward nv n x =
     (case dims5 (shape x) of
        None \<Rightarrow> Inl (RuntimeError ''norm: expected a 5D input'')
      | Some (B, C, D, H, W) \<Rightarrow>
          if C \<noteq> n_num_channels n
          then Inl (RuntimeError ''norm: wrong number of channels'')
          else (case n_kind n of
                  GroupNorm32 G \<Rightarrow>
                    if (B * C div G) * D * H * W = 1
                    then Inl (ValueError
                           ''Expected more than 1 value per channel when training'')
                    else Inr (x\<lparr>vals := nv n x\<rparr>)
                | ChannelLayerNorm32 \<Rightarrow> Inr (x\<lparr>vals := nv n x\<rparr>)))"


subsection \<open>Blocks\<close>

text \<open>
  \<open>ResBlock3d_hidden\<close> is the first part of \<^verbatim>\<open>ResBlock3d.forward\<close>: the value of \<^verbatim>\<open>h\<close>
  after the second \<^verbatim>\<open>F.silu\<close>, which is what the second convolution receives.
\<close>

definition ResBlock3d_hidden :: "norm_values \<Rightarrow> ResBlock3d \<Rightarrow> tensor \<Rightarrow> error + tensor" where
  "ResBlock3d_hidden nv self x =
     bindE (norm_forward nv (rb_norm1 self) x) (\<lambda>h.
     bindE (conv3d_forward (rb_conv1 self) (silu h)) (\<lambda>h.
     bindE (norm_forward nv (rb_norm2 self) h) (\<lambda>h.
     Inr (silu h))))"

definition ResBlock3d_forward :: "norm_values \<Rightarrow> ResBlock3d \<Rightarrow> tensor \<Rightarrow> error + tensor" where
  "ResBlock3d_forward nv self x =
     bindE (ResBlock3d_hidden nv self x) (\<lambda>h.
     bindE (conv3d_forward (rb_conv2 self) h) (\<lambda>h.
     bindE (case rb_skip_connection self of
              None \<Rightarrow> Inr x
            | Some sc \<Rightarrow> conv3d_forward sc x) (\<lambda>skip.
     tensor_add h skip)))"

definition DownsampleBlock3d_forward :: "DownsampleBlock3d \<Rightarrow> tensor \<Rightarrow> error + tensor" where
  "DownsampleBlock3d_forward self x =
     (case ds_conv self of
        Some conv \<Rightarrow> conv3d_forward conv x
      | None \<Rightarrow> avg_pool3d x 2)"

definition UpsampleBlock3d_forward :: "UpsampleBlock3d \<Rightarrow> tensor \<Rightarrow> error + tensor" where
  "UpsampleBlock3d_forward self x =
     (case us_conv self of
        Some conv \<Rightarrow> bindE (conv3d_forward conv x) (\<lambda>x. pixel_shuffle_3d x 2)
      | None \<Rightarrow> interpolate_nearest x 2)"

fun block_forward :: "norm_values \<Rightarrow> block \<Rightarrow> tensor \<Rightarrow> error + tensor" where
  "block_forward nv (Res rb) x = ResBlock3d_forward nv rb x"
| "block_forward nv (Down d) x = DownsampleBlock3d_forward d x"
| "block_forward nv (Up u) x = UpsampleBlock3d_forward u x"

fun layer_forward :: "norm_values \<Rightarrow> layer \<Rightarrow> tensor \<Rightarrow> error + tensor" where
  "layer_forward nv (NormL n) x = norm_forward nv n x"
| "layer_forward nv SiLU x = Inr (silu x)"
| "layer_forward nv (ConvL c) x = conv3d_forward c x"

text \<open>
  \<^verbatim>\<open>for block in self.blocks: h = block(h)\<close>, which is also what \<^verbatim>\<open>nn.Sequential\<close> does.
\<close>

fun sequential :: "('m \<Rightarrow> tensor \<Rightarrow> error + tensor) \<Rightarrow> 'm list \<Rightarrow> tensor \<Rightarrow> error + tensor" where
  "sequential fw [] h = Inr h"
| "sequential fw (m # ms) h = bindE (fw m h) (sequential fw ms)"

subsection \<open>Encoder and decoder\<close>

text \<open>
  Neither \<^verbatim>\<open>forward\<close> casts its activations: the input reaches \<^verbatim>\<open>input_layer\<close> as it is
  given, and every layer receives what the layer before it returned.
\<close>

definition Encoder_forward :: "norm_values \<Rightarrow> SparseStructureEncoder \<Rightarrow> tensor \<Rightarrow> error + tensor" where
  "Encoder_forward nv self x =
     bindE (conv3d_forward (enc_input_layer self) x) (\<lambda>h.
     bindE (sequential (block_forward nv) (enc_blocks self) h) (\<lambda>h.
     bindE (sequential (ResBlock3d_forward nv) (enc_middle_block self) h) (\<lambda>h.
     sequential (layer_forward nv) (enc_out_layer self) h)))"

definition Decoder_forward :: "norm_values \<Rightarrow> SparseStructureDecoder \<Rightarrow> tensor \<Rightarrow> error + tensor" where
  "Decoder_forward nv self x =
     bindE (conv3d_forward (dec_input_layer self) x) (\<lambda>h.
     bindE (sequential (ResBlock3d_forward nv) (dec_middle_block self) h) (\<lambda>h.
     bindE (sequential (block_forward nv) (dec_blocks self) h) (\<lambda>h.
     sequential (layer_forward nv) (dec_out_layer self) h)))"

section \<open>DenseShapeVAE\<close>

record DenseShapeVAE =
  vae_use_checkpoint :: bool
  vae_latents_scale :: real
  vae_latents_shift :: real
  vae_encoder :: SparseStructureEncoder
  vae_decoder :: SparseStructureDecoder
  vae_embed_dim :: nat

text \<open>
  The constructor passes no \<^verbatim>\<open>norm_type\<close> to the encoder and the decoder: both get the
  default \<^verbatim>\<open>"layer"\<close>.
\<close>

definition DenseShapeVAE_init ::
  "nat \<Rightarrow> nat list \<Rightarrow> nat list \<Rightarrow> nat \<Rightarrow> nat \<Rightarrow> nat \<Rightarrow> nat \<Rightarrow> nat \<Rightarrow> nat \<Rightarrow> bool \<Rightarrow> bool
     \<Rightarrow> real \<Rightarrow> real \<Rightarrow> DenseShapeVAE build" where
  "DenseShapeVAE_init embed_dim model_channels_encoder model_channels_decoder
       num_res_blocks_encoder num_res_blocks_middle_encoder
       num_res_blocks_decoder num_res_blocks_middle_decoder
       in_channels out_channels use_fp16 use_checkpoint latents_scale latents_shift g =
     bindB (SparseStructureEncoder_init in_channels embed_dim num_res_blocks_encoder
              model_channels_encoder num_res_blocks_middle_encoder ''layer''
              use_fp16 use_checkpoint g) (\<lambda>encoder g.
     bindB (SparseStructureDecoder_init out_channels embed_dim num_res_blocks_decoder
              model_channels_decoder num_res_blocks_middle_decoder ''layer''
              use_fp16 use_checkpoint g) (\<lambda>decoder g.
     retB \<lparr>vae_use_checkpoint = use_checkpoint,
           vae_latents_scale = latents_scale,
           vae_latents_shift = latents_shift,
           vae_encoder = encoder,
           vae_decoder = decoder,
           vae_embed_dim = embed_dim\<rparr> g))"

subsection \<open>encode and forward\<close>

text \<open>
  \<^verbatim>\<open>DiagonalGaussianDistribution\<close> comes from \<^verbatim>\<open>distributions.py\<close>, which is not among the
  sources; the three operations the wrapper calls are parameters: the constructor (with its
  \<^verbatim>\<open>feat_dim\<close>), \<^verbatim>\<open>sample()\<close>, which consumes random numbers, and \<^verbatim>\<open>mode()\<close>.
\<close>

record 'p gaussian =
  dgd_new :: "tensor \<Rightarrow> nat \<Rightarrow> error + 'p"
  dgd_sample :: "'p \<Rightarrow> rng \<Rightarrow> error + (tensor \<times> rng)"
  dgd_mode :: "'p \<Rightarrow> error + tensor"

type_synonym batch = "string \<rightharpoonup> tensor"

definition encode ::
  "norm_values \<Rightarrow> 'p gaussian \<Rightarrow> DenseShapeVAE \<Rightarrow> batch \<Rightarrow> bool \<Rightarrow> rng
     \<Rightarrow> error + ((tensor \<times> 'p) \<times> rng)" where
  "encode nv dgd self batch sample_posterior g =
     (case batch ''dense_index'' of
        None \<Rightarrow> Inl (KeyError ''dense_index'')
      | Some dense_index \<Rightarrow>
          let dt = t_dtype dense_index;
              x = map_t (\<lambda>v. fsub dt (fmul dt v (Fin 2)) (Fin 1)) dense_index in
          bindE (Encoder_forward nv (vae_encoder self) x) (\<lambda>h.
          bindE (dgd_new dgd h 1) (\<lambda>posterior.
          if sample_posterior
          then bindE (dgd_sample dgd posterior g) (\<lambda>(z, g'). Inr ((z, posterior), g'))
          else bindE (dgd_mode dgd posterior) (\<lambda>z. Inr ((z, posterior), g)))))"

text \<open>The dictionary \<^verbatim>\<open>{'reconst_x': ..., 'posterior': ...}\<close> is the pair of its two values.\<close>

definition forward ::
  "norm_values \<Rightarrow> 'p gaussian \<Rightarrow> DenseShapeVAE \<Rightarrow> batch \<Rightarrow> rng
     \<Rightarrow> error + ((tensor \<times> 'p) \<times> rng)" where
  "forward nv dgd self batch g =
     bindE (encode nv dgd self batch True g) (\<lambda>((z, posterior), g').
     bindE (Decoder_forward nv (vae_decoder self) z) (\<lambda>reconst_x.
     Inr ((reconst_x, posterior), g')))"

subsection \<open>Mesh extraction\<close>

text \<open>\<^verbatim>\<open>len(x)\<close> and \<^verbatim>\<open>x[i]\<close> for \<open>i < len(x)\<close>.\<close>

definition len_t :: "tensor \<Rightarrow> error + nat" where
  "len_t x = (case shape x of [] \<Rightarrow> Inl TypeError | n # _ \<Rightarrow> Inr n)"

definition select0 :: "tensor \<Rightarrow> nat \<Rightarrow> tensor" where
  "select0 x i =
     (let m = prod_list (tl (shape x)) in
      \<lparr>shape = tl (shape x), vals = take m (drop (i * m) (vals x)), t_dtype = t_dtype x\<rparr>)"

text \<open>
  \<^verbatim>\<open>(occ >= t).float()\<close>: one where the comparison holds, zero elsewhere, in float32.
\<close>

definition ge_float :: "tensor \<Rightarrow> real \<Rightarrow> tensor" where
  "ge_float occ t =
     \<lparr>shape = shape occ, vals = map (\<lambda>v. if fl_ge v t then Fin 1 else Fin 0) (vals occ),
      t_dtype = Float32\<rparr>"

definition squeeze0 :: "tensor \<Rightarrow> tensor" where
  "squeeze0 x = (case shape x of n # ds \<Rightarrow> if n = 1 then x\<lparr>shape := ds\<rparr> else x | [] \<Rightarrow> x)"

definition unsqueeze0 :: "tensor \<Rightarrow> tensor" where
  "unsqueeze0 x = x\<lparr>shape := 1 # shape x\<rparr>"

text \<open>
  \<^verbatim>\<open>nonzero()\<close>: one row of coordinates for every nonzero element, in row-major order.
\<close>

fun unravel :: "nat list \<Rightarrow> nat \<Rightarrow> nat list" where
  "unravel [] k = []"
| "unravel (d # ds) k = (k div prod_list ds) # unravel ds (k mod prod_list ds)"

definition nonzero :: "tensor \<Rightarrow> nat list list" where
  "nonzero x =
     map (unravel (shape x)) (filter (\<lambda>k. vals x ! k \<noteq> Fin 0) [0..<length (vals x)])"

text \<open>
  \<^verbatim>\<open>skimage.measure.marching_cubes(volume, level, method="lewiner")\<close> is a library call: the
  parameter \<open>mc\<close> gives its vertices (one coordinate triple each) and faces, or the error it
  raises.  \<^verbatim>\<open>vertices / voxel_resolution * 2 - 1\<close> is numpy arithmetic: dividing by zero
  raises nothing and yields values that are not finite.  \<^verbatim>\<open>trimesh.Trimesh(vertices, faces)\<close>
  is kept as the pair of arrays it is given.
\<close>

type_synonym marching_cubes = "tensor \<Rightarrow> real \<Rightarrow> error + (real list list \<times> nat list list)"

datatype coord = Finite real | NonFinite

record mesh =
  m_vertices :: "coord list list"
  m_faces :: "nat list list"

definition rescale :: "real list list \<Rightarrow> int \<Rightarrow> coord list list" where
  "rescale vertices voxel_resolution =
     map (map (\<lambda>v. if voxel_resolution = 0 then NonFinite
                    else Finite (v / real_of_int voxel_resolution * 2 - 1))) vertices"

fun mapE :: "('a \<Rightarrow> error + 'b) \<Rightarrow> 'a list \<Rightarrow> error + 'b list" where
  "mapE f [] = Inr []"
| "mapE f (x # xs) = bindE (f x) (\<lambda>y. bindE (mapE f xs) (\<lambda>ys. Inr (y # ys)))"

definition dense2mesh ::
  "marching_cubes \<Rightarrow> DenseShapeVAE \<Rightarrow> tensor \<Rightarrow> int \<Rightarrow> real \<Rightarrow> error + mesh list" where
  "dense2mesh mc self x voxel_resolution mc_threshold =
     bindE (len_t x) (\<lambda>n.
     mapE (\<lambda>i.
       let occ = map_t fsigmoid (select0 x i);
           occ = squeeze0 (ge_float occ 0.1)
       in bindE (mc occ mc_threshold) (\<lambda>(vertices, faces).
          let vertices = rescale vertices voxel_resolution
          in Inr \<lparr>m_vertices = vertices, m_faces = faces\<rparr>)) [0..<n])"

text \<open>
  What scikit-image documents of the vertices: they are positions in the index space of
  the volume, so the coordinate of a vertex along an axis lies between \<open>0\<close> and the extent
  of that axis minus one.
\<close>

definition mc_within_volume :: "marching_cubes \<Rightarrow> bool" where
  "mc_within_volume mc \<longleftrightarrow>
     (\<forall>occ level vertices faces. mc occ level = Inr (vertices, faces) \<longrightarrow>
        (\<forall>v\<in>set vertices. length v = length (shape occ)
           \<and> (\<forall>j<length v. 0 \<le> v ! j \<and> v ! j \<le> real (shape occ ! j) - 1)))"

text \<open>
  For the examples below: the \<open>3 x 3 x 3\<close> volume whose only occupied voxel is the centre.
  At level \<open>1/2\<close> its isosurface is the octahedron around the centre, with a vertex halfway
  to each of the six neighbours.  \<open>mc_single_voxel\<close> is marching cubes restricted to this one
  input; on any other input it raises.
\<close>

definition single_voxel :: tensor where
  "single_voxel =
     \<lparr>shape = [3, 3, 3], vals = replicate 13 (Fin 0) @ [Fin 1] @ replicate 13 (Fin 0),
      t_dtype = Float32\<rparr>"

definition mc_single_voxel :: marching_cubes where
  "mc_single_voxel occ level =
     (if occ = single_voxel \<and> level = 1 / 2
      then Inr ([[1 / 2, 1, 1], [1, 1 / 2, 1], [1, 1, 1 / 2],
                 [1, 1, 3 / 2], [1, 3 / 2, 1], [3 / 2, 1, 1]],
                [[0, 1, 2], [0, 2, 4], [0, 4, 3], [0, 3, 1],
                 [5, 2, 1], [5, 4, 2], [5, 3, 4], [5, 1, 3]])
      else Inl (ValueError ''marching_cubes: not the single-voxel volume''))"

datatype decoded = Indices "nat list list list" | Meshes "mesh list"

definition decode_mesh ::
  "norm_values \<Rightarrow> marching_cubes \<Rightarrow> DenseShapeVAE \<Rightarrow> tensor \<Rightarrow> int \<Rightarrow> real \<Rightarrow> bool
     \<Rightarrow> error + decoded" where
  "decode_mesh nv mc self latents voxel_resolution mc_threshold return_index =
     bindE (Decoder_forward nv (vae_decoder self) latents) (\<lambda>x.
     if return_index
     then bindE (len_t x) (\<lambda>n.
          Inr (Indices (map (\<lambda>i.
            let occ = map_t fsigmoid (select0 x i);
                occ = squeeze0 (ge_float occ mc_threshold);
                index = nonzero (unsqueeze0 occ)
            in index) [0..<n])))
     else bindE (dense2mesh mc self x voxel_resolution mc_threshold) (\<lambda>meshes.
          Inr (Meshes meshes)))"

section \<open>Properties of the constructors\<close>

lemma bindB_Inl [simp]: "bindB (Inl e) f = Inl e"
  by (simp add: bindB_def)

lemma bindB_Inr [simp]: "bindB (Inr (a, g)) f = f a g"
  by (simp add: bindB_def)

lemma bindE_Inl [simp]: "bindE (Inl e) f = Inl e"
  by (simp add: bindE_def)

lemma bindE_Inr [simp]: "bindE (Inr a) f = f a"
  by (simp add: bindE_def)

lemma bindB_eq_Inr:
  "bindB r f = Inr (b, g') \<longleftrightarrow> (\<exists>a g1. r = Inr (a, g1) \<and> f a g1 = Inr (b, g'))"
  by (cases r) (auto simp: bindB_def)

lemma new_Conv3d_ok: "\<exists>c g'. new_Conv3d cin cout k s p g = Inr (c, g')"
  by (simp add: new_Conv3d_def draw_def)

lemma new_Conv3d_fields:
  assumes "new_Conv3d cin cout k s p g = Inr (c, g')"
  shows "c_in_channels c = cin" "c_out_channels c = cout" "c_kernel_size c = k"
    "c_stride c = s" "c_padding c = p" "length (c_weight c) = cout * cin * k * k * k"
    "length (c_bias c) = cout" "c_dtype c = Float32"
  using assms by (auto simp: new_Conv3d_def draw_def)

lemma norm_layer_layer:
  "norm_layer ''layer'' ch =
     Inr \<lparr>n_kind = ChannelLayerNorm32, n_num_channels = ch, n_dtype = Float32\<rparr>"
  by (simp add: norm_layer_def ChannelLayerNorm32_new_def)

lemma norm_layer_invalid:
  "nt \<noteq> ''group'' \<Longrightarrow> nt \<noteq> ''layer'' \<Longrightarrow>
     norm_layer nt ch = Inl (ValueError (''Invalid norm type '' @ nt))"
  by (simp add: norm_layer_def)

lemma norm_layer_recognized:
  "nt = ''group'' \<or> nt = ''layer'' \<Longrightarrow>
     norm_layer nt ch \<noteq> Inl (ValueError (''Invalid norm type '' @ s))"
  by (auto simp: norm_layer_def GroupNorm32_new_def ChannelLayerNorm32_new_def)

lemma norm_layer_Inr:
  "norm_layer nt ch = Inr n \<Longrightarrow>
     n_num_channels n = ch \<and> n_dtype n = Float32
     \<and> n_kind n = (if nt = ''group'' then GroupNorm32 32 else ChannelLayerNorm32)"
  by (auto simp: norm_layer_def GroupNorm32_new_def ChannelLayerNorm32_new_def
      split: if_splits)

lemma ResBlock3d_init_Inr:
  assumes "ResBlock3d_init ch oc nt g = Inr (rb, g')"
  shows "\<exists>n1 n2 c1 c2 g1 g2.
     norm_layer nt ch = Inr n1 \<and> norm_layer nt (or_else oc ch) = Inr n2
     \<and> new_Conv3d ch (or_else oc ch) 3 1 1 g = Inr (c1, g1)
     \<and> new_Conv3d (or_else oc ch) (or_else oc ch) 3 1 1 g1 = Inr (c2, g2)
     \<and> rb_channels rb = ch \<and> rb_out_channels rb = or_else oc ch
     \<and> rb_norm1 rb = n1 \<and> rb_norm2 rb = n2 \<and> rb_conv1 rb = c1
     \<and> rb_conv2 rb = zero_module c2
     \<and> (if ch \<noteq> or_else oc ch
         then \<exists>sc. new_Conv3d ch (or_else oc ch) 1 1 0 g2 = Inr (sc, g')
                \<and> rb_skip_connection rb = Some sc
         else rb_skip_connection rb = None \<and> g' = g2)"
  using assms
  unfolding ResBlock3d_init_def Let_def
  by (auto simp: bindB_eq_Inr liftE_def retB_def split: sum.splits if_splits)

lemma ResBlock3d_init_invalid:
  "nt \<noteq> ''group'' \<Longrightarrow> nt \<noteq> ''layer'' \<Longrightarrow>
     ResBlock3d_init ch oc nt g = Inl (ValueError (''Invalid norm type '' @ nt))"
  by (simp add: ResBlock3d_init_def norm_layer_invalid liftE_def Let_def)

lemma ResBlock3d_init_layer_ok:
  "\<exists>rb g'. ResBlock3d_init ch oc ''layer'' g = Inr (rb, g')"
proof -
  define o' where "o' = or_else oc ch"
  obtain c1 g1 where c1: "new_Conv3d ch o' 3 1 1 g = Inr (c1, g1)"
    using new_Conv3d_ok by blast
  obtain c2 g2 where c2: "new_Conv3d o' o' 3 1 1 g1 = Inr (c2, g2)"
    using new_Conv3d_ok by blast
  obtain c3 g3 where c3: "new_Conv3d ch o' 1 1 0 g2 = Inr (c3, g3)"
    using new_Conv3d_ok by blast
  show ?thesis
    unfolding ResBlock3d_init_def Let_def o'_def [symmetric]
    by (simp del: One_nat_def add: norm_layer_layer liftE_def c1 c2 c3 retB_def)
qed

lemma ResBlock3d_init_error:
  "ResBlock3d_init ch oc nt g = Inl e \<Longrightarrow>
     norm_layer nt ch = Inl e \<or> norm_layer nt (or_else oc ch) = Inl e"
proof -
  define o' where "o' = or_else oc ch"
  obtain c1 g1 where c1: "new_Conv3d ch o' 3 1 1 g = Inr (c1, g1)"
    using new_Conv3d_ok by blast
  obtain c2 g2 where c2: "new_Conv3d o' o' 3 1 1 g1 = Inr (c2, g2)"
    using new_Conv3d_ok by blast
  obtain c3 g3 where c3: "new_Conv3d ch o' 1 1 0 g2 = Inr (c3, g3)"
    using new_Conv3d_ok by blast
  assume "ResBlock3d_init ch oc nt g = Inl e"
  then show ?thesis
    unfolding ResBlock3d_init_def Let_def o'_def [symmetric]
    by (cases "norm_layer nt ch"; cases "norm_layer nt o'")
       (auto simp del: One_nat_def simp: liftE_def c1 c2 c3 retB_def split: if_splits)
qed

lemma repeatB_ok:
  assumes "\<And>g. \<exists>r g'. m g = Inr (r, g')"
  shows "\<exists>rs g'. repeatB n m g = Inr (rs, g')"
proof (induction n arbitrary: g)
  case 0
  show ?case by (simp add: retB_def)
next
  case (Suc n)
  obtain r g1 where r: "m g = Inr (r, g1)" using assms by blast
  obtain rs g2 where rs: "repeatB n m g1 = Inr (rs, g2)" using Suc by blast
  show ?case by (simp add: r rs retB_def)
qed

lemma repeatB_all:
  assumes "\<And>g r g'. m g = Inr (r, g') \<Longrightarrow> P r"
  shows "repeatB n m g = Inr (rs, g') \<Longrightarrow> \<forall>r\<in>set rs. P r"
proof (induction n arbitrary: g rs g')
  case 0
  then show ?case by (simp add: retB_def)
next
  case (Suc n)
  then show ?case
    using assms by (fastforce simp: bindB_eq_Inr retB_def)
qed

lemma Down_init_conv_ok:
  "\<exists>d g'. DownsampleBlock3d_init ic oc ''conv'' g = Inr (d, g')"
proof -
  obtain c1 g1 where c1: "new_Conv3d ic oc 2 2 0 g = Inr (c1, g1)"
    using new_Conv3d_ok by blast
  show ?thesis unfolding DownsampleBlock3d_init_def c1 by (simp add: retB_def)
qed

lemma Up_init_conv_ok:
  "\<exists>d g'. UpsampleBlock3d_init ic oc ''conv'' g = Inr (d, g')"
proof -
  obtain c1 g1 where c1: "new_Conv3d ic (oc * 8) 3 1 1 g = Inr (c1, g1)"
    using new_Conv3d_ok by blast
  show ?thesis unfolding UpsampleBlock3d_init_def c1 by (simp add: retB_def)
qed

lemma enc_stages_ok: "\<exists>bs g'. enc_stages n chs g = Inr (bs, g')"
proof (induction chs arbitrary: g)
  case Nil
  show ?case by (simp add: retB_def)
next
  case (Cons ch rest)
  obtain res g1 where res: "repeatB n (ResBlock3d_init ch (Some ch) ''layer'') g = Inr (res, g1)"
    using repeatB_ok [of "ResBlock3d_init ch (Some ch) ''layer''"] ResBlock3d_init_layer_ok
    by blast
  obtain down g2 where down:
    "(case rest of [] \<Rightarrow> retB [] g1
      | nxt # _ \<Rightarrow> bindB (DownsampleBlock3d_init ch nxt ''conv'' g1) (\<lambda>d g. retB [Down d] g))
     = Inr (down, g2)"
  proof (cases rest)
    case Nil
    then show ?thesis using that by (simp add: retB_def)
  next
    case (Cons nxt r)
    obtain d g2 where "DownsampleBlock3d_init ch nxt ''conv'' g1 = Inr (d, g2)"
      using Down_init_conv_ok by blast
    then show ?thesis using that Cons by (simp add: retB_def)
  qed
  obtain bs g3 where bs: "enc_stages n rest g2 = Inr (bs, g3)"
    using Cons by blast
  show ?case by (simp add: res down bs retB_def)
qed

lemma dec_stages_ok: "\<exists>bs g'. dec_stages n chs g = Inr (bs, g')"
proof (induction chs arbitrary: g)
  case Nil
  show ?case by (simp add: retB_def)
next
  case (Cons ch rest)
  obtain res g1 where res: "repeatB n (ResBlock3d_init ch (Some ch) ''layer'') g = Inr (res, g1)"
    using repeatB_ok [of "ResBlock3d_init ch (Some ch) ''layer''"] ResBlock3d_init_layer_ok
    by blast
  obtain up g2 where up:
    "(case rest of [] \<Rightarrow> retB [] g1
      | nxt # _ \<Rightarrow> bindB (UpsampleBlock3d_init ch nxt ''conv'' g1) (\<lambda>u g. retB [Up u] g))
     = Inr (up, g2)"
  proof (cases rest)
    case Nil
    then show ?thesis using that by (simp add: retB_def)
  next
    case (Cons nxt r)
    obtain d g2 where "UpsampleBlock3d_init ch nxt ''conv'' g1 = Inr (d, g2)"
      using Up_init_conv_ok by blast
    then show ?thesis using that Cons by (simp add: retB_def)
  qed
  obtain bs g3 where bs: "dec_stages n rest g2 = Inr (bs, g3)"
    using Cons by blast
  show ?case by (simp add: res up bs retB_def)
qed

section \<open>Construction of the encoder and the decoder\<close>

lemma list_case_hd: "chs \<noteq> [] \<Longrightarrow> (case chs of [] \<Rightarrow> a | c0 # r \<Rightarrow> f c0) = f (hd chs)"
  by (cases chs) simp_all

lemma Encoder_init_Inr:
  assumes "SparseStructureEncoder_init ic lc n chs m nt fp ck g = Inr (e, g')"
  shows "\<exists>il ga bs gb mid gc on oc.
     chs \<noteq> []
     \<and> new_Conv3d ic (hd chs) 3 1 1 g = Inr (il, ga)
     \<and> enc_stages n chs ga = Inr (bs, gb)
     \<and> repeatB m (ResBlock3d_init (last chs) (Some (last chs)) ''layer'') gb = Inr (mid, gc)
     \<and> norm_layer nt (last chs) = Inr on
     \<and> new_Conv3d (last chs) (lc * 2) 3 1 1 gc = Inr (oc, g')
     \<and> enc_input_layer e = il
     \<and> enc_out_layer e = [NormL on, SiLU, ConvL oc]
     \<and> enc_blocks e = (if fp then map (block_apply convert_module_to_f16) bs else bs)
     \<and> enc_middle_block e =
         (if fp then map (ResBlock3d_apply convert_module_to_f16) mid else mid)"
proof -
  have ne: "chs \<noteq> []"
    using assms by (auto simp: SparseStructureEncoder_init_def)
  show ?thesis
    using assms ne
    unfolding SparseStructureEncoder_init_def Let_def list_case_hd [OF ne]
    by (cases "norm_layer nt (last chs)")
       (auto simp del: One_nat_def enc_stages.simps
         simp: bindB_eq_Inr liftE_def retB_def Encoder_convert_to_fp16_def)
qed

lemma Decoder_init_Inr:
  assumes "SparseStructureDecoder_init oc' lc n chs m nt fp ck g = Inr (e, g')"
  shows "\<exists>il ga bs gb mid gc on oc.
     chs \<noteq> []
     \<and> new_Conv3d lc (hd chs) 3 1 1 g = Inr (il, ga)
     \<and> repeatB m (ResBlock3d_init (hd chs) (Some (hd chs)) ''layer'') ga = Inr (mid, gb)
     \<and> dec_stages n chs gb = Inr (bs, gc)
     \<and> norm_layer nt (last chs) = Inr on
     \<and> new_Conv3d (last chs) oc' 3 1 1 gc = Inr (oc, g')
     \<and> dec_input_layer e = (if fp then on_conv convert_module_to_f16 il else il)
     \<and> dec_out_layer e =
         (if fp then map (layer_apply convert_module_to_f16) [NormL on, SiLU, ConvL oc]
          else [NormL on, SiLU, ConvL oc])
     \<and> dec_blocks e = (if fp then map (block_apply convert_module_to_f16) bs else bs)
     \<and> dec_middle_block e =
         (if fp then map (ResBlock3d_apply convert_module_to_f16) mid else mid)"
proof -
  have ne: "chs \<noteq> []"
    using assms by (auto simp: SparseStructureDecoder_init_def)
  show ?thesis
    using assms ne
    unfolding SparseStructureDecoder_init_def Let_def list_case_hd [OF ne]
    by (cases "norm_layer nt (last chs)")
       (auto simp del: One_nat_def dec_stages.simps
         simp: bindB_eq_Inr liftE_def retB_def Decoder_convert_to_fp16_def Decoder_apply_def)
qed

lemma Encoder_init_fail:
  assumes ne: "chs \<noteq> []" and nl: "norm_layer nt (last chs) = Inl e"
  shows "SparseStructureEncoder_init a0 a1 n chs m nt fp ck g = Inl e"
proof -
  obtain il ga where il: "new_Conv3d a0 (hd chs) 3 1 1 g = Inr (il, ga)"
    using new_Conv3d_ok by blast
  obtain bs gb where bs: "enc_stages n chs ga = Inr (bs, gb)"
    using enc_stages_ok by blast
  obtain mid gc where mid:
    "repeatB m (ResBlock3d_init (last chs) (Some (last chs)) ''layer'') gb = Inr (mid, gc)"
    using repeatB_ok [of "ResBlock3d_init (last chs) (Some (last chs)) ''layer''"]
      ResBlock3d_init_layer_ok by blast
  obtain oc gd where oc: "new_Conv3d (last chs) (a1 * 2) 3 1 1 gc = Inr (oc, gd)"
    using new_Conv3d_ok by blast
  show ?thesis
    unfolding SparseStructureEncoder_init_def list_case_hd [OF ne] il bindB_Inr bs mid nl liftE_def
    by (simp only: sum.case bindB_Inl)
qed

lemma Encoder_init_ok:
  assumes ne: "chs \<noteq> []" and nl: "norm_layer nt (last chs) = Inr on"
  shows "\<exists>e g'. SparseStructureEncoder_init a0 a1 n chs m nt fp ck g = Inr (e, g')"
proof -
  obtain il ga where il: "new_Conv3d a0 (hd chs) 3 1 1 g = Inr (il, ga)"
    using new_Conv3d_ok by blast
  obtain bs gb where bs: "enc_stages n chs ga = Inr (bs, gb)"
    using enc_stages_ok by blast
  obtain mid gc where mid:
    "repeatB m (ResBlock3d_init (last chs) (Some (last chs)) ''layer'') gb = Inr (mid, gc)"
    using repeatB_ok [of "ResBlock3d_init (last chs) (Some (last chs)) ''layer''"]
      ResBlock3d_init_layer_ok by blast
  obtain oc gd where oc: "new_Conv3d (last chs) (a1 * 2) 3 1 1 gc = Inr (oc, gd)"
    using new_Conv3d_ok by blast
  show ?thesis
    unfolding SparseStructureEncoder_init_def list_case_hd [OF ne] il bindB_Inr bs mid nl liftE_def
    by (simp only: sum.case bindB_Inr oc retB_def) blast
qed

lemma Encoder_init_error:
  assumes "SparseStructureEncoder_init a0 a1 n chs m nt fp ck g = Inl e"
  shows "(chs = [] \<and> e = IndexError) \<or> norm_layer nt (last chs) = Inl e"
proof (cases "chs = []")
  case True
  then show ?thesis using assms by (simp add: SparseStructureEncoder_init_def)
next
  case False
  show ?thesis
  proof (cases "norm_layer nt (last chs)")
    case (Inl e')
    then show ?thesis using assms Encoder_init_fail [OF False Inl, of a0 a1 n m fp ck g] by simp
  next
    case (Inr on)
    then show ?thesis using assms Encoder_init_ok [OF False Inr, of a0 a1 n m fp ck g] by auto
  qed
qed

lemma Decoder_init_fail:
  assumes ne: "chs \<noteq> []" and nl: "norm_layer nt (last chs) = Inl e"
  shows "SparseStructureDecoder_init a0 a1 n chs m nt fp ck g = Inl e"
proof -
  obtain il ga where il: "new_Conv3d a1 (hd chs) 3 1 1 g = Inr (il, ga)"
    using new_Conv3d_ok by blast
  obtain mid gb where mid:
    "repeatB m (ResBlock3d_init (hd chs) (Some (hd chs)) ''layer'') ga = Inr (mid, gb)"
    using repeatB_ok [of "ResBlock3d_init (hd chs) (Some (hd chs)) ''layer''"]
      ResBlock3d_init_layer_ok by blast
  obtain bs gc where bs: "dec_stages n chs gb = Inr (bs, gc)"
    using dec_stages_ok by blast
  obtain oc gd where oc: "new_Conv3d (last chs) a0 3 1 1 gc = Inr (oc, gd)"
    using new_Conv3d_ok by blast
  show ?thesis
    unfolding SparseStructureDecoder_init_def list_case_hd [OF ne] il bindB_Inr bs mid nl liftE_def
    by (simp only: sum.case bindB_Inl)
qed

lemma Decoder_init_ok:
  assumes ne: "chs \<noteq> []" and nl: "norm_layer nt (last chs) = Inr on"
  shows "\<exists>e g'. SparseStructureDecoder_init a0 a1 n chs m nt fp ck g = Inr (e, g')"
proof -
  obtain il ga where il: "new_Conv3d a1 (hd chs) 3 1 1 g = Inr (il, ga)"
    using new_Conv3d_ok by blast
  obtain mid gb where mid:
    "repeatB m (ResBlock3d_init (hd chs) (Some (hd chs)) ''layer'') ga = Inr (mid, gb)"
    using repeatB_ok [of "ResBlock3d_init (hd chs) (Some (hd chs)) ''layer''"]
      ResBlock3d_init_layer_ok by blast
  obtain bs gc where bs: "dec_stages n chs gb = Inr (bs, gc)"
    using dec_stages_ok by blast
  obtain oc gd where oc: "new_Conv3d (last chs) a0 3 1 1 gc = Inr (oc, gd)"
    using new_Conv3d_ok by blast
  show ?thesis
    unfolding SparseStructureDecoder_init_def list_case_hd [OF ne] il bindB_Inr bs mid nl liftE_def
    by (simp only: sum.case bindB_Inr oc retB_def) blast
qed

lemma Decoder_init_error:
  assumes "SparseStructureDecoder_init a0 a1 n chs m nt fp ck g = Inl e"
  shows "(chs = [] \<and> e = IndexError) \<or> norm_layer nt (last chs) = Inl e"
proof (cases "chs = []")
  case True
  then show ?thesis using assms by (simp add: SparseStructureDecoder_init_def)
next
  case False
  show ?thesis
  proof (cases "norm_layer nt (last chs)")
    case (Inl e')
    then show ?thesis using assms Decoder_init_fail [OF False Inl, of a0 a1 n m fp ck g] by simp
  next
    case (Inr on)
    then show ?thesis using assms Decoder_init_ok [OF False Inr, of a0 a1 n m fp ck g] by auto
  qed
qed

section \<open>Rejected normalization kinds\<close>

text \<open>
  C6.  For a normalization kind other than \<^verbatim>\<open>"group"\<close> and \<^verbatim>\<open>"layer"\<close>, the constructors of
  \<^verbatim>\<open>ResBlock3d\<close>, \<^verbatim>\<open>SparseStructureEncoder\<close> and \<^verbatim>\<open>SparseStructureDecoder\<close> raise: the residual
  block always the selector's \<^verbatim>\<open>ValueError\<close>; the encoder and the decoder the same error,
  unless the channel list is empty, where \<^verbatim>\<open>channels[0]\<close> has raised \<^verbatim>\<open>IndexError\<close> before
  the selector is reached.  For the two recognized kinds no constructor raises the
  selector's error, whatever its other arguments.
\<close>

theorem C6_norm_type_rejected:
  "(nt \<noteq> ''group'' \<and> nt \<noteq> ''layer'' \<longrightarrow>
      ResBlock3d_init ch oc nt g = Inl (ValueError (''Invalid norm type '' @ nt))
      \<and> SparseStructureEncoder_init ic lc n chs m nt fp ck g =
          Inl (if chs = [] then IndexError else ValueError (''Invalid norm type '' @ nt))
      \<and> SparseStructureDecoder_init oc' lc n chs m nt fp ck g =
          Inl (if chs = [] then IndexError else ValueError (''Invalid norm type '' @ nt)))
   \<and> (nt = ''group'' \<or> nt = ''layer'' \<longrightarrow>
      ResBlock3d_init ch oc nt g \<noteq> Inl (ValueError (''Invalid norm type '' @ s))
      \<and> SparseStructureEncoder_init ic lc n chs m nt fp ck g
          \<noteq> Inl (ValueError (''Invalid norm type '' @ s))
      \<and> SparseStructureDecoder_init oc' lc n chs m nt fp ck g
          \<noteq> Inl (ValueError (''Invalid norm type '' @ s)))"
proof (intro conjI impI)
  assume bad: "nt \<noteq> ''group'' \<and> nt \<noteq> ''layer''"
  show "ResBlock3d_init ch oc nt g = Inl (ValueError (''Invalid norm type '' @ nt))"
    using bad by (simp add: ResBlock3d_init_invalid)
  show "SparseStructureEncoder_init ic lc n chs m nt fp ck g =
          Inl (if chs = [] then IndexError else ValueError (''Invalid norm type '' @ nt))"
    using bad Encoder_init_fail [OF _ norm_layer_invalid, of chs nt ic lc n m fp ck g]
    by (cases "chs = []") (simp_all add: SparseStructureEncoder_init_def)
  show "SparseStructureDecoder_init oc' lc n chs m nt fp ck g =
          Inl (if chs = [] then IndexError else ValueError (''Invalid norm type '' @ nt))"
    using bad Decoder_init_fail [OF _ norm_layer_invalid, of chs nt oc' lc n m fp ck g]
    by (cases "chs = []") (simp_all add: SparseStructureDecoder_init_def)
next
  assume good: "nt = ''group'' \<or> nt = ''layer''"
  show "ResBlock3d_init ch oc nt g \<noteq> Inl (ValueError (''Invalid norm type '' @ s))"
    using ResBlock3d_init_error [of ch oc nt g] norm_layer_recognized [OF good] by blast
  show "SparseStructureEncoder_init ic lc n chs m nt fp ck g
          \<noteq> Inl (ValueError (''Invalid norm type '' @ s))"
    using Encoder_init_error [of ic lc n chs m nt fp ck g]
      norm_layer_recognized [OF good, of "last chs" s] by blast
  show "SparseStructureDecoder_init oc' lc n chs m nt fp ck g
          \<noteq> Inl (ValueError (''Invalid norm type '' @ s))"
    using Decoder_init_error [of oc' lc n chs m nt fp ck g]
      norm_layer_recognized [OF good, of "last chs" s] by blast
qed

theorem C6_witness:
  "ResBlock3d_init 8 None ''batch'' (\<lambda>_. 0) = Inl (ValueError ''Invalid norm type batch'')
   \<and> SparseStructureEncoder_init 1 2 1 [8, 16] 1 ''batch'' False False (\<lambda>_. 0)
       = Inl (ValueError ''Invalid norm type batch'')
   \<and> SparseStructureDecoder_init 1 2 1 [8, 16] 1 ''batch'' False False (\<lambda>_. 0)
       = Inl (ValueError ''Invalid norm type batch'')
   \<and> ResBlock3d_init 8 None ''layer'' (\<lambda>_. 0) \<noteq> Inl (ValueError ''Invalid norm type layer'')
   \<and> SparseStructureEncoder_init 1 2 1 [8, 16] 1 ''group'' False False (\<lambda>_. 0)
       \<noteq> Inl (ValueError ''Invalid norm type group'')
   \<and> SparseStructureDecoder_init 1 2 1 [8, 16] 1 ''layer'' False False (\<lambda>_. 0)
       \<noteq> Inl (ValueError ''Invalid norm type layer'')"
  using C6_norm_type_rejected [of "''batch''" 8 None "\<lambda>_. 0" 1 2 1 "[8, 16]" 1 False False 1 "''batch''"]
    C6_norm_type_rejected [of "''layer''" 8 None "\<lambda>_. 0" 1 2 1 "[8, 16]" 1 False False 1 "''layer''"]
    C6_norm_type_rejected [of "''group''" 8 None "\<lambda>_. 0" 1 2 1 "[8, 16]" 1 False False 1 "''group''"]
  by simp

section \<open>Construction errors of the resampling blocks\<close>

text \<open>
  C7.  A \<^verbatim>\<open>DownsampleBlock3d\<close> in mode \<^verbatim>\<open>"avgpool"\<close> and an \<^verbatim>\<open>UpsampleBlock3d\<close> in mode
  \<^verbatim>\<open>"nearest"\<close> with different input and output channel counts fail their assertion at
  construction; in mode \<^verbatim>\<open>"conv"\<close> both constructors return a block, with its convolution,
  for every pair of channel counts.
\<close>

theorem C7_resample_mode_channels:
  "(ic \<noteq> oc \<longrightarrow> DownsampleBlock3d_init ic oc ''avgpool'' g =
      Inl (AssertionError ''Pooling mode requires in_channels to be equal to out_channels''))
   \<and> (ic \<noteq> oc \<longrightarrow> UpsampleBlock3d_init ic oc ''nearest'' g =
      Inl (AssertionError ''Nearest mode requires in_channels to be equal to out_channels''))
   \<and> (\<exists>c g'. DownsampleBlock3d_init ic oc ''conv'' g =
        Inr (\<lparr>ds_in_channels = ic, ds_out_channels = oc, ds_conv = Some c\<rparr>, g'))
   \<and> (\<exists>c g'. UpsampleBlock3d_init ic oc ''conv'' g =
        Inr (\<lparr>us_in_channels = ic, us_out_channels = oc, us_conv = Some c\<rparr>, g'))"
proof -
  obtain c1 g1 where c1: "new_Conv3d ic oc 2 2 0 g = Inr (c1, g1)"
    using new_Conv3d_ok by blast
  obtain c2 g2 where c2: "new_Conv3d ic (oc * 8) 3 1 1 g = Inr (c2, g2)"
    using new_Conv3d_ok by blast
  show ?thesis
    unfolding DownsampleBlock3d_init_def UpsampleBlock3d_init_def c1 c2
    by (simp add: bindB_def retB_def)
qed

theorem C7_witness:
  "(1::nat) \<noteq> 2
   \<and> DownsampleBlock3d_init 1 2 ''avgpool'' (\<lambda>_. 0) =
      Inl (AssertionError ''Pooling mode requires in_channels to be equal to out_channels'')
   \<and> UpsampleBlock3d_init 1 2 ''nearest'' (\<lambda>_. 0) =
      Inl (AssertionError ''Nearest mode requires in_channels to be equal to out_channels'')
   \<and> (\<exists>c g'. DownsampleBlock3d_init 1 2 ''conv'' (\<lambda>_. 0) =
        Inr (\<lparr>ds_in_channels = 1, ds_out_channels = 2, ds_conv = Some c\<rparr>, g'))
   \<and> (\<exists>c g'. UpsampleBlock3d_init 1 2 ''conv'' (\<lambda>_. 0) =
        Inr (\<lparr>us_in_channels = 1, us_out_channels = 2, us_conv = Some c\<rparr>, g'))"
  using C7_resample_mode_channels [of 1 2 "\<lambda>_. 0"] by simp

section \<open>Which normalization the blocks use\<close>

lemma ResBlock3d_init_layer_kinds:
  assumes "ResBlock3d_init ch oc ''layer'' g = Inr (rb, g')"
  shows "n_kind (rb_norm1 rb) = ChannelLayerNorm32 \<and> n_kind (rb_norm2 rb) = ChannelLayerNorm32"
  using ResBlock3d_init_Inr [OF assms] norm_layer_Inr [of "''layer''"] by fastforce

lemma enc_stages_kinds:
  "enc_stages n chs g = Inr (bs, g') \<Longrightarrow>
     \<forall>b\<in>set bs. \<forall>k\<in>set (block_norm_kinds b). k = ChannelLayerNorm32"
proof (induction chs arbitrary: g bs g')
  case Nil
  then show ?case by (simp add: retB_def)
next
  case (Cons ch rest)
  from Cons.prems obtain res g1 down g2 blocks where
    res: "repeatB n (ResBlock3d_init ch (Some ch) ''layer'') g = Inr (res, g1)"
    and down: "(case rest of [] \<Rightarrow> retB [] g1
          | nxt # _ \<Rightarrow> bindB (DownsampleBlock3d_init ch nxt ''conv'' g1)
                         (\<lambda>d g. retB [Down d] g)) = Inr (down, g2)"
    and blocks: "enc_stages n rest g2 = Inr (blocks, g')"
    and bs: "bs = map Res res @ down @ blocks"
    by (auto simp: bindB_eq_Inr retB_def)
  have r: "\<forall>rb\<in>set res. n_kind (rb_norm1 rb) = ChannelLayerNorm32
             \<and> n_kind (rb_norm2 rb) = ChannelLayerNorm32"
    using repeatB_all [where P = "\<lambda>rb. n_kind (rb_norm1 rb) = ChannelLayerNorm32
             \<and> n_kind (rb_norm2 rb) = ChannelLayerNorm32", OF _ res]
      ResBlock3d_init_layer_kinds by blast
  have d: "\<forall>b\<in>set down. block_norm_kinds b = []"
    using down by (cases rest) (auto simp: retB_def bindB_eq_Inr)
  show ?case
    using r d Cons.IH [OF blocks] by (auto simp: bs)
qed

lemma dec_stages_kinds:
  "dec_stages n chs g = Inr (bs, g') \<Longrightarrow>
     \<forall>b\<in>set bs. \<forall>k\<in>set (block_norm_kinds b). k = ChannelLayerNorm32"
proof (induction chs arbitrary: g bs g')
  case Nil
  then show ?case by (simp add: retB_def)
next
  case (Cons ch rest)
  from Cons.prems obtain res g1 up g2 blocks where
    res: "repeatB n (ResBlock3d_init ch (Some ch) ''layer'') g = Inr (res, g1)"
    and up: "(case rest of [] \<Rightarrow> retB [] g1
          | nxt # _ \<Rightarrow> bindB (UpsampleBlock3d_init ch nxt ''conv'' g1)
                         (\<lambda>u g. retB [Up u] g)) = Inr (up, g2)"
    and blocks: "dec_stages n rest g2 = Inr (blocks, g')"
    and bs: "bs = map Res res @ up @ blocks"
    by (auto simp: bindB_eq_Inr retB_def)
  have r: "\<forall>rb\<in>set res. n_kind (rb_norm1 rb) = ChannelLayerNorm32
             \<and> n_kind (rb_norm2 rb) = ChannelLayerNorm32"
    using repeatB_all [where P = "\<lambda>rb. n_kind (rb_norm1 rb) = ChannelLayerNorm32
             \<and> n_kind (rb_norm2 rb) = ChannelLayerNorm32", OF _ res]
      ResBlock3d_init_layer_kinds by blast
  have d: "\<forall>b\<in>set up. block_norm_kinds b = []"
    using up by (cases rest) (auto simp: retB_def bindB_eq_Inr)
  show ?case
    using r d Cons.IH [OF blocks] by (auto simp: bs)
qed

lemma block_apply_f16_kinds [simp]:
  "block_norm_kinds (block_apply convert_module_to_f16 b) = block_norm_kinds b"
  by (cases b) (simp_all add: ResBlock3d_apply_def convert_module_to_f16_def)

lemma ResBlock3d_apply_f16_kinds [simp]:
  "n_kind (rb_norm1 (ResBlock3d_apply convert_module_to_f16 rb)) = n_kind (rb_norm1 rb)"
  "n_kind (rb_norm2 (ResBlock3d_apply convert_module_to_f16 rb)) = n_kind (rb_norm2 rb)"
  by (simp_all add: ResBlock3d_apply_def convert_module_to_f16_def)

lemma on_f16:
  "on_conv convert_module_to_f16 c = c\<lparr>c_dtype := Float16\<rparr>"
  "on_norm convert_module_to_f16 n = n\<lparr>n_dtype := Float16\<rparr>"
  by (simp_all add: convert_module_to_f16_def)


lemma Encoder_init_norm_type:
  assumes 1: "SparseStructureEncoder_init ic lc n chs m nt fp ck g = Inr (e, g1)"
    and 2: "SparseStructureEncoder_init ic lc n chs m nt' fp ck g = Inr (e', g2)"
  shows "enc_input_layer e = enc_input_layer e' \<and> enc_blocks e = enc_blocks e'
    \<and> enc_middle_block e = enc_middle_block e'
    \<and> (\<exists>on on' c. enc_out_layer e = [NormL on, SiLU, ConvL c]
          \<and> enc_out_layer e' = [NormL on', SiLU, ConvL c]
          \<and> n_kind on = (if nt = ''group'' then GroupNorm32 32 else ChannelLayerNorm32)
          \<and> n_kind on' = (if nt' = ''group'' then GroupNorm32 32 else ChannelLayerNorm32))
    \<and> (\<forall>b\<in>set (enc_blocks e). \<forall>k\<in>set (block_norm_kinds b). k = ChannelLayerNorm32)
    \<and> (\<forall>rb\<in>set (enc_middle_block e). n_kind (rb_norm1 rb) = ChannelLayerNorm32
          \<and> n_kind (rb_norm2 rb) = ChannelLayerNorm32)"
proof -
  from Encoder_init_Inr [OF 1] obtain il ga bs gb mid gc on oc where a:
    "new_Conv3d ic (hd chs) 3 1 1 g = Inr (il, ga)"
    "enc_stages n chs ga = Inr (bs, gb)"
    "repeatB m (ResBlock3d_init (last chs) (Some (last chs)) ''layer'') gb = Inr (mid, gc)"
    "norm_layer nt (last chs) = Inr on"
    "new_Conv3d (last chs) (lc * 2) 3 1 1 gc = Inr (oc, g1)"
    "enc_input_layer e = il"
    "enc_out_layer e = [NormL on, SiLU, ConvL oc]"
    "enc_blocks e = (if fp then map (block_apply convert_module_to_f16) bs else bs)"
    "enc_middle_block e =
       (if fp then map (ResBlock3d_apply convert_module_to_f16) mid else mid)"
    by blast
  from Encoder_init_Inr [OF 2] obtain il' ga' bs' gb' mid' gc' on' oc' where b:
    "new_Conv3d ic (hd chs) 3 1 1 g = Inr (il', ga')"
    "enc_stages n chs ga' = Inr (bs', gb')"
    "repeatB m (ResBlock3d_init (last chs) (Some (last chs)) ''layer'') gb' = Inr (mid', gc')"
    "norm_layer nt' (last chs) = Inr on'"
    "new_Conv3d (last chs) (lc * 2) 3 1 1 gc' = Inr (oc', g2)"
    "enc_input_layer e' = il'"
    "enc_out_layer e' = [NormL on', SiLU, ConvL oc']"
    "enc_blocks e' = (if fp then map (block_apply convert_module_to_f16) bs' else bs')"
    "enc_middle_block e' =
       (if fp then map (ResBlock3d_apply convert_module_to_f16) mid' else mid')"
    by blast
  have e1: "il' = il" "ga' = ga" using a(1) b(1) by simp_all
  have e2: "bs' = bs" "gb' = gb" using a(2) b(2) e1 by simp_all
  have e3: "mid' = mid" "gc' = gc" using a(3) b(3) e2 by simp_all
  have e4: "oc' = oc" using a(5) b(5) e3 by simp
  have k: "\<forall>b\<in>set bs. \<forall>k\<in>set (block_norm_kinds b). k = ChannelLayerNorm32"
    using enc_stages_kinds [OF a(2)] .
  have km: "\<forall>rb\<in>set mid. n_kind (rb_norm1 rb) = ChannelLayerNorm32
             \<and> n_kind (rb_norm2 rb) = ChannelLayerNorm32"
    using repeatB_all [where P = "\<lambda>rb. n_kind (rb_norm1 rb) = ChannelLayerNorm32
             \<and> n_kind (rb_norm2 rb) = ChannelLayerNorm32", OF _ a(3)]
      ResBlock3d_init_layer_kinds by blast
  show ?thesis
    using a(4,6-9) b(4,6-9) e1 e2 e3 e4 k km
      norm_layer_Inr [OF a(4)] norm_layer_Inr [OF b(4)]
    by auto
qed

lemma Decoder_init_norm_type:
  assumes 1: "SparseStructureDecoder_init oc0 lc n chs m nt fp ck g = Inr (e, g1)"
    and 2: "SparseStructureDecoder_init oc0 lc n chs m nt' fp ck g = Inr (e', g2)"
  shows "dec_input_layer e = dec_input_layer e' \<and> dec_blocks e = dec_blocks e'
    \<and> dec_middle_block e = dec_middle_block e'
    \<and> (\<exists>on on' c. dec_out_layer e = [NormL on, SiLU, ConvL c]
          \<and> dec_out_layer e' = [NormL on', SiLU, ConvL c]
          \<and> n_kind on = (if nt = ''group'' then GroupNorm32 32 else ChannelLayerNorm32)
          \<and> n_kind on' = (if nt' = ''group'' then GroupNorm32 32 else ChannelLayerNorm32))
    \<and> (\<forall>b\<in>set (dec_blocks e). \<forall>k\<in>set (block_norm_kinds b). k = ChannelLayerNorm32)
    \<and> (\<forall>rb\<in>set (dec_middle_block e). n_kind (rb_norm1 rb) = ChannelLayerNorm32
          \<and> n_kind (rb_norm2 rb) = ChannelLayerNorm32)"
proof -
  from Decoder_init_Inr [OF 1] obtain il ga bs gb mid gc on oc where a:
    "new_Conv3d lc (hd chs) 3 1 1 g = Inr (il, ga)"
    "repeatB m (ResBlock3d_init (hd chs) (Some (hd chs)) ''layer'') ga = Inr (mid, gb)"
    "dec_stages n chs gb = Inr (bs, gc)"
    "norm_layer nt (last chs) = Inr on"
    "new_Conv3d (last chs) oc0 3 1 1 gc = Inr (oc, g1)"
    "dec_input_layer e = (if fp then on_conv convert_module_to_f16 il else il)"
    "dec_out_layer e =
       (if fp then map (layer_apply convert_module_to_f16) [NormL on, SiLU, ConvL oc]
        else [NormL on, SiLU, ConvL oc])"
    "dec_blocks e = (if fp then map (block_apply convert_module_to_f16) bs else bs)"
    "dec_middle_block e =
       (if fp then map (ResBlock3d_apply convert_module_to_f16) mid else mid)"
    by blast
  from Decoder_init_Inr [OF 2] obtain il' ga' bs' gb' mid' gc' on' oc' where b:
    "new_Conv3d lc (hd chs) 3 1 1 g = Inr (il', ga')"
    "repeatB m (ResBlock3d_init (hd chs) (Some (hd chs)) ''layer'') ga' = Inr (mid', gb')"
    "dec_stages n chs gb' = Inr (bs', gc')"
    "norm_layer nt' (last chs) = Inr on'"
    "new_Conv3d (last chs) oc0 3 1 1 gc' = Inr (oc', g2)"
    "dec_input_layer e' = (if fp then on_conv convert_module_to_f16 il' else il')"
    "dec_out_layer e' =
       (if fp then map (layer_apply convert_module_to_f16) [NormL on', SiLU, ConvL oc']
        else [NormL on', SiLU, ConvL oc'])"
    "dec_blocks e' = (if fp then map (block_apply convert_module_to_f16) bs' else bs')"
    "dec_middle_block e' =
       (if fp then map (ResBlock3d_apply convert_module_to_f16) mid' else mid')"
    by blast
  have e1: "il' = il" "ga' = ga" using a(1) b(1) by simp_all
  have e2: "mid' = mid" "gb' = gb" using a(2) b(2) e1 by simp_all
  have e3: "bs' = bs" "gc' = gc" using a(3) b(3) e2 by simp_all
  have e4: "oc' = oc" using a(5) b(5) e3 by simp
  have k: "\<forall>b\<in>set bs. \<forall>k\<in>set (block_norm_kinds b). k = ChannelLayerNorm32"
    using dec_stages_kinds [OF a(3)] .
  have km: "\<forall>rb\<in>set mid. n_kind (rb_norm1 rb) = ChannelLayerNorm32
             \<and> n_kind (rb_norm2 rb) = ChannelLayerNorm32"
    using repeatB_all [where P = "\<lambda>rb. n_kind (rb_norm1 rb) = ChannelLayerNorm32
             \<and> n_kind (rb_norm2 rb) = ChannelLayerNorm32", OF _ a(2)]
      ResBlock3d_init_layer_kinds by blast
  show ?thesis
    using a(4,6-9) b(4,6-9) e1 e2 e3 e4 k km
      norm_layer_Inr [OF a(4)] norm_layer_Inr [OF b(4)]
    by (auto simp: on_f16)
qed

text \<open>
  C9.  The \<^verbatim>\<open>norm_type\<close> argument of the encoder and of the decoder reaches only the
  normalization of \<^verbatim>\<open>out_layer\<close>.  Two constructions that differ in nothing but
  \<^verbatim>\<open>norm_type\<close> (and start from the same random stream) have equal \<^verbatim>\<open>input_layer\<close>,
  \<^verbatim>\<open>blocks\<close>, \<^verbatim>\<open>middle_block\<close> and output convolution; the kind of the normalization in
  \<^verbatim>\<open>out_layer\<close> follows \<^verbatim>\<open>norm_type\<close>, while every normalization of every residual block in
  \<^verbatim>\<open>blocks\<close> and \<^verbatim>\<open>middle_block\<close> is the channel-wise layer normalization, also under
  \<^verbatim>\<open>norm_type="group"\<close>.
\<close>

theorem C9_norm_type_reaches_only_out_layer:
  "(SparseStructureEncoder_init ic lc n chs m nt fp ck g = Inr (e, g1)
     \<and> SparseStructureEncoder_init ic lc n chs m nt' fp ck g = Inr (e', g2) \<longrightarrow>
      enc_input_layer e = enc_input_layer e' \<and> enc_blocks e = enc_blocks e'
      \<and> enc_middle_block e = enc_middle_block e'
      \<and> (\<exists>on on' c. enc_out_layer e = [NormL on, SiLU, ConvL c]
            \<and> enc_out_layer e' = [NormL on', SiLU, ConvL c]
            \<and> n_kind on = (if nt = ''group'' then GroupNorm32 32 else ChannelLayerNorm32)
            \<and> n_kind on' = (if nt' = ''group'' then GroupNorm32 32 else ChannelLayerNorm32))
      \<and> (\<forall>b\<in>set (enc_blocks e). \<forall>k\<in>set (block_norm_kinds b). k = ChannelLayerNorm32)
      \<and> (\<forall>rb\<in>set (enc_middle_block e). n_kind (rb_norm1 rb) = ChannelLayerNorm32
            \<and> n_kind (rb_norm2 rb) = ChannelLayerNorm32))
   \<and> (SparseStructureDecoder_init oc lc n chs m nt fp ck g = Inr (d, h1)
     \<and> SparseStructureDecoder_init oc lc n chs m nt' fp ck g = Inr (d', h2) \<longrightarrow>
      dec_input_layer d = dec_input_layer d' \<and> dec_blocks d = dec_blocks d'
      \<and> dec_middle_block d = dec_middle_block d'
      \<and> (\<exists>on on' c. dec_out_layer d = [NormL on, SiLU, ConvL c]
            \<and> dec_out_layer d' = [NormL on', SiLU, ConvL c]
            \<and> n_kind on = (if nt = ''group'' then GroupNorm32 32 else ChannelLayerNorm32)
            \<and> n_kind on' = (if nt' = ''group'' then GroupNorm32 32 else ChannelLayerNorm32))
      \<and> (\<forall>b\<in>set (dec_blocks d). \<forall>k\<in>set (block_norm_kinds b). k = ChannelLayerNorm32)
      \<and> (\<forall>rb\<in>set (dec_middle_block d). n_kind (rb_norm1 rb) = ChannelLayerNorm32
            \<and> n_kind (rb_norm2 rb) = ChannelLayerNorm32))"
  using Encoder_init_norm_type [of ic lc n chs m nt fp ck g e g1 nt' e' g2]
    Decoder_init_norm_type [of oc lc n chs m nt fp ck g d h1 nt' d' h2]
  by blast

lemma norm_layer_group_32:
  "norm_layer ''group'' 32 =
     Inr \<lparr>n_kind = GroupNorm32 32, n_num_channels = 32, n_dtype = Float32\<rparr>"
  by (simp add: norm_layer_def GroupNorm32_new_def)

theorem C9_witness:
  "\<exists>e g1 e' g2 d h1 d' h2.
     SparseStructureEncoder_init 1 8 2 [16, 32] 2 ''group'' False False (\<lambda>_. 0) = Inr (e, g1)
     \<and> SparseStructureEncoder_init 1 8 2 [16, 32] 2 ''layer'' False False (\<lambda>_. 0) = Inr (e', g2)
     \<and> SparseStructureDecoder_init 1 8 2 [16, 32] 2 ''group'' False False (\<lambda>_. 0) = Inr (d, h1)
     \<and> SparseStructureDecoder_init 1 8 2 [16, 32] 2 ''layer'' False False (\<lambda>_. 0) = Inr (d', h2)
     \<and> enc_blocks e = enc_blocks e' \<and> enc_middle_block e = enc_middle_block e'
     \<and> dec_blocks d = dec_blocks d' \<and> dec_middle_block d = dec_middle_block d'
     \<and> (\<exists>on on' c. enc_out_layer e = [NormL on, SiLU, ConvL c]
            \<and> enc_out_layer e' = [NormL on', SiLU, ConvL c]
            \<and> n_kind on = GroupNorm32 32 \<and> n_kind on' = ChannelLayerNorm32)
     \<and> (\<forall>b\<in>set (enc_blocks e). \<forall>k\<in>set (block_norm_kinds b). k = ChannelLayerNorm32)
     \<and> (\<forall>b\<in>set (dec_blocks d). \<forall>k\<in>set (block_norm_kinds b). k = ChannelLayerNorm32)"
proof -
  have ne: "[16, 32::nat] \<noteq> []" by simp
  have gl: "norm_layer ''group'' (last [16, 32]) =
      Inr \<lparr>n_kind = GroupNorm32 32, n_num_channels = 32, n_dtype = Float32\<rparr>"
    using norm_layer_group_32 by simp
  have ll: "norm_layer ''layer'' (last [16, 32]) =
      Inr \<lparr>n_kind = ChannelLayerNorm32, n_num_channels = 32, n_dtype = Float32\<rparr>"
    using norm_layer_layer [of 32] by simp
  obtain e g1 where e:
    "SparseStructureEncoder_init 1 8 2 [16, 32] 2 ''group'' False False (\<lambda>_. 0) = Inr (e, g1)"
    using Encoder_init_ok [OF ne gl] by blast
  obtain e' g2 where e':
    "SparseStructureEncoder_init 1 8 2 [16, 32] 2 ''layer'' False False (\<lambda>_. 0) = Inr (e', g2)"
    using Encoder_init_ok [OF ne ll] by blast
  obtain d h1 where d:
    "SparseStructureDecoder_init 1 8 2 [16, 32] 2 ''group'' False False (\<lambda>_. 0) = Inr (d, h1)"
    using Decoder_init_ok [OF ne gl] by blast
  obtain d' h2 where d':
    "SparseStructureDecoder_init 1 8 2 [16, 32] 2 ''layer'' False False (\<lambda>_. 0) = Inr (d', h2)"
    using Decoder_init_ok [OF ne ll] by blast
  note T = C9_norm_type_reaches_only_out_layer
    [of 1 8 2 "[16, 32]" 2 "''group''" False False "\<lambda>_. 0" e g1 "''layer''" e' g2 1 d h1 d' h2]
  have BD: "enc_blocks e = enc_blocks e' \<and> enc_middle_block e = enc_middle_block e'
     \<and> dec_blocks d = dec_blocks d' \<and> dec_middle_block d = dec_middle_block d'
     \<and> (\<exists>on on' c. enc_out_layer e = [NormL on, SiLU, ConvL c]
            \<and> enc_out_layer e' = [NormL on', SiLU, ConvL c]
            \<and> n_kind on = GroupNorm32 32 \<and> n_kind on' = ChannelLayerNorm32)
     \<and> (\<forall>b\<in>set (enc_blocks e). \<forall>k\<in>set (block_norm_kinds b). k = ChannelLayerNorm32)
     \<and> (\<forall>b\<in>set (dec_blocks d). \<forall>k\<in>set (block_norm_kinds b). k = ChannelLayerNorm32)"
    using T e e' d d' by simp
  show ?thesis
    using e e' d d' BD by blast
qed

section \<open>Precision conversion\<close>

lemma ResBlock3d_apply_f16_dtypes:
  "set (ResBlock3d_dtypes (ResBlock3d_apply convert_module_to_f16 rb)) \<subseteq> {Float16}"
  by (cases "rb_skip_connection rb")
     (simp_all add: ResBlock3d_dtypes_def ResBlock3d_apply_def on_f16)


lemma block_apply_f16_dtypes:
  "set (block_dtypes (block_apply convert_module_to_f16 b)) \<subseteq> {Float16}"
proof (cases b)
  case (Res rb)
  then show ?thesis using ResBlock3d_apply_f16_dtypes by simp
next
  case (Down d)
  then show ?thesis by (cases "ds_conv d") (simp_all add: on_f16)
next
  case (Up u)
  then show ?thesis by (cases "us_conv u") (simp_all add: on_f16)
qed


lemma layer_apply_f16_dtypes:
  "set (layer_dtypes (layer_apply convert_module_to_f16 l)) \<subseteq> {Float16}"
  by (cases l) (simp_all add: on_f16)

lemma concat_map_subset:
  "(\<And>x. set (f (h x)) \<subseteq> S) \<Longrightarrow> set (concat (map f (map h xs))) \<subseteq> S"
  by (induction xs) auto

lemma Encoder_fresh_fp32:
  assumes "SparseStructureEncoder_init ic lc n chs m nt False ck g = Inr (e, g')"
  shows "c_dtype (enc_input_layer e) = Float32
    \<and> set (concat (map layer_dtypes (enc_out_layer e))) = {Float32}"
proof -
  from Encoder_init_Inr [OF assms] obtain il ga gc on oc where a:
    "new_Conv3d ic (hd chs) 3 1 1 g = Inr (il, ga)"
    "norm_layer nt (last chs) = Inr on"
    "new_Conv3d (last chs) (lc * 2) 3 1 1 gc = Inr (oc, g')"
    "enc_input_layer e = il"
    "enc_out_layer e = [NormL on, SiLU, ConvL oc]"
    by blast
  show ?thesis
    using a(4,5) new_Conv3d_fields(8) [OF a(1)] new_Conv3d_fields(8) [OF a(3)]
      norm_layer_Inr [OF a(2)]
    by simp
qed


text \<open>
  C5.  \<^verbatim>\<open>SparseStructureEncoder.convert_to_fp16\<close> casts the parameters of \<^verbatim>\<open>blocks\<close> and of
  \<^verbatim>\<open>middle_block\<close> to float16 and leaves \<^verbatim>\<open>input_layer\<close> and \<^verbatim>\<open>out_layer\<close> as they are, which
  on an encoder constructed without \<^verbatim>\<open>use_fp16\<close> is float32.
  \<^verbatim>\<open>SparseStructureDecoder.convert_to_fp16\<close> casts every parameter of the decoder to float16,
  those of \<^verbatim>\<open>input_layer\<close> and \<^verbatim>\<open>out_layer\<close> included.
\<close>

theorem C5_convert_to_fp16_scope:
  "(enc_input_layer (Encoder_convert_to_fp16 e) = enc_input_layer e
    \<and> enc_out_layer (Encoder_convert_to_fp16 e) = enc_out_layer e
    \<and> set (concat (map block_dtypes (enc_blocks (Encoder_convert_to_fp16 e)))) \<subseteq> {Float16}
    \<and> set (concat (map ResBlock3d_dtypes (enc_middle_block (Encoder_convert_to_fp16 e))))
        \<subseteq> {Float16}
    \<and> enc_dtype (Encoder_convert_to_fp16 e) = Float16
    \<and> enc_use_fp16 (Encoder_convert_to_fp16 e))
   \<and> (SparseStructureEncoder_init ic lc n chs m nt False ck g = Inr (e0, g') \<longrightarrow>
        c_dtype (enc_input_layer (Encoder_convert_to_fp16 e0)) = Float32
        \<and> set (concat (map layer_dtypes (enc_out_layer (Encoder_convert_to_fp16 e0))))
            = {Float32})
   \<and> (c_dtype (dec_input_layer (Decoder_convert_to_fp16 d)) = Float16
    \<and> set (concat (map layer_dtypes (dec_out_layer (Decoder_convert_to_fp16 d)))) \<subseteq> {Float16}
    \<and> set (concat (map block_dtypes (dec_blocks (Decoder_convert_to_fp16 d)))) \<subseteq> {Float16}
    \<and> set (concat (map ResBlock3d_dtypes (dec_middle_block (Decoder_convert_to_fp16 d))))
        \<subseteq> {Float16}
    \<and> dec_dtype (Decoder_convert_to_fp16 d) = Float16
    \<and> dec_use_fp16 (Decoder_convert_to_fp16 d))"
proof (intro conjI impI)
  show "set (concat (map block_dtypes (enc_blocks (Encoder_convert_to_fp16 e)))) \<subseteq> {Float16}"
    unfolding Encoder_convert_to_fp16_def
    using concat_map_subset [of block_dtypes "block_apply convert_module_to_f16" "{Float16}"
        "enc_blocks e"] block_apply_f16_dtypes
    by simp
  show "set (concat (map ResBlock3d_dtypes (enc_middle_block (Encoder_convert_to_fp16 e))))
        \<subseteq> {Float16}"
    unfolding Encoder_convert_to_fp16_def
    using concat_map_subset [of ResBlock3d_dtypes "ResBlock3d_apply convert_module_to_f16"
        "{Float16}" "enc_middle_block e"] ResBlock3d_apply_f16_dtypes
    by simp
  show "set (concat (map layer_dtypes (dec_out_layer (Decoder_convert_to_fp16 d)))) \<subseteq> {Float16}"
    unfolding Decoder_convert_to_fp16_def Decoder_apply_def
    using concat_map_subset [of layer_dtypes "layer_apply convert_module_to_f16" "{Float16}"
        "dec_out_layer d"] layer_apply_f16_dtypes
    by simp
  show "set (concat (map block_dtypes (dec_blocks (Decoder_convert_to_fp16 d)))) \<subseteq> {Float16}"
    unfolding Decoder_convert_to_fp16_def Decoder_apply_def
    using concat_map_subset [of block_dtypes "block_apply convert_module_to_f16" "{Float16}"
        "dec_blocks d"] block_apply_f16_dtypes
    by simp
  show "set (concat (map ResBlock3d_dtypes (dec_middle_block (Decoder_convert_to_fp16 d))))
        \<subseteq> {Float16}"
    unfolding Decoder_convert_to_fp16_def Decoder_apply_def
    using concat_map_subset [of ResBlock3d_dtypes "ResBlock3d_apply convert_module_to_f16"
        "{Float16}" "dec_middle_block d"] ResBlock3d_apply_f16_dtypes
    by simp
next
  assume i: "SparseStructureEncoder_init ic lc n chs m nt False ck g = Inr (e0, g')"
  show "c_dtype (enc_input_layer (Encoder_convert_to_fp16 e0)) = Float32"
    using Encoder_fresh_fp32 [OF i] by (simp add: Encoder_convert_to_fp16_def)
  show "set (concat (map layer_dtypes (enc_out_layer (Encoder_convert_to_fp16 e0)))) = {Float32}"
    using Encoder_fresh_fp32 [OF i] by (simp add: Encoder_convert_to_fp16_def)
qed (simp_all add: Encoder_convert_to_fp16_def Decoder_convert_to_fp16_def Decoder_apply_def
      on_f16)

theorem C5_witness:
  "\<exists>e0 g'. SparseStructureEncoder_init 1 8 2 [16, 32] 2 ''layer'' False False (\<lambda>_. 0)
       = Inr (e0, g')
     \<and> c_dtype (enc_input_layer (Encoder_convert_to_fp16 e0)) = Float32
     \<and> set (concat (map layer_dtypes (enc_out_layer (Encoder_convert_to_fp16 e0)))) = {Float32}
     \<and> set (concat (map block_dtypes (enc_blocks (Encoder_convert_to_fp16 e0)))) \<subseteq> {Float16}
     \<and> enc_input_layer (Encoder_convert_to_fp16 e0) = enc_input_layer e0"
proof -
  have ne: "[16, 32::nat] \<noteq> []" by simp
  have ll: "norm_layer ''layer'' (last [16, 32]) =
      Inr \<lparr>n_kind = ChannelLayerNorm32, n_num_channels = 32, n_dtype = Float32\<rparr>"
    using norm_layer_layer [of 32] by simp
  obtain e0 g' where e:
    "SparseStructureEncoder_init 1 8 2 [16, 32] 2 ''layer'' False False (\<lambda>_. 0) = Inr (e0, g')"
    using Encoder_init_ok [OF ne ll] by blast
  note T = C5_convert_to_fp16_scope
    [of e0 1 8 2 "[16, 32]" 2 "''layer''" False "\<lambda>_. 0" e0 g']
  show ?thesis using T e by blast
qed



section \<open>The wrapper: latent coefficients and thresholds\<close>

text \<open>
  C4.  The methods \<^verbatim>\<open>encode\<close>, \<^verbatim>\<open>forward\<close>, \<^verbatim>\<open>decode_mesh\<close> and \<^verbatim>\<open>dense2mesh\<close> return the same
  result on two \<^verbatim>\<open>DenseShapeVAE\<close> objects that differ only in \<^verbatim>\<open>latents_scale\<close> and
  \<^verbatim>\<open>latents_shift\<close>; and the constructor does nothing with the two arguments but store
  them: constructing with \<open>s, t\<close> gives what constructing with \<open>s0, t0\<close> gives, with the two
  fields set to \<open>s\<close> and \<open>t\<close>.
\<close>

theorem C4_latents_scale_shift_unused:
  "encode nf dgd (self\<lparr>vae_latents_scale := s, vae_latents_shift := t\<rparr>) batch sp g
     = encode nf dgd self batch sp g
   \<and> forward nf dgd (self\<lparr>vae_latents_scale := s, vae_latents_shift := t\<rparr>) batch g
     = forward nf dgd self batch g
   \<and> decode_mesh nf mc (self\<lparr>vae_latents_scale := s, vae_latents_shift := t\<rparr>)
       latents R thr ri
     = decode_mesh nf mc self latents R thr ri
   \<and> dense2mesh mc (self\<lparr>vae_latents_scale := s, vae_latents_shift := t\<rparr>) x R thr
     = dense2mesh mc self x R thr
   \<and> DenseShapeVAE_init ed mce mcd a b c d ic oc fp ck s t g0
     = (case DenseShapeVAE_init ed mce mcd a b c d ic oc fp ck s0 t0 g0 of
          Inl e \<Rightarrow> Inl e
        | Inr (v, g') \<Rightarrow> Inr (v\<lparr>vae_latents_scale := s, vae_latents_shift := t\<rparr>, g'))"
proof (intro conjI)
  show "DenseShapeVAE_init ed mce mcd a b c d ic oc fp ck s t g0
     = (case DenseShapeVAE_init ed mce mcd a b c d ic oc fp ck s0 t0 g0 of
          Inl e \<Rightarrow> Inl e
        | Inr (v, g') \<Rightarrow> Inr (v\<lparr>vae_latents_scale := s, vae_latents_shift := t\<rparr>, g'))"
  proof (cases "SparseStructureEncoder_init ic ed a mce b ''layer'' fp ck g0")
    case (Inl e)
    then show ?thesis by (simp add: DenseShapeVAE_init_def)
  next
    case (Inr p)
    obtain enc g1 where p: "p = (enc, g1)" by (cases p)
    show ?thesis
    proof (cases "SparseStructureDecoder_init oc ed c mcd d ''layer'' fp ck g1")
      case (Inl e)
      then show ?thesis using Inr p by (simp add: DenseShapeVAE_init_def)
    next
      case (Inr q)
      obtain dec g2 where q: "q = (dec, g2)" by (cases q)
      show ?thesis
        using \<open>SparseStructureEncoder_init ic ed a mce b ''layer'' fp ck g0 = Inr p\<close> p Inr q
        by (simp add: DenseShapeVAE_init_def retB_def)
    qed
  qed
qed (simp_all add: encode_def forward_def decode_mesh_def dense2mesh_def Let_def
      split: option.splits cong: if_cong)

lemma squeeze0_binarize:
  "squeeze0 (ge_float (map_t fsigmoid y) a) =
     \<lparr>shape = shape (squeeze0 y),
      vals = map (\<lambda>v. if fl_ge (fsigmoid v) a then Fin 1 else Fin 0) (vals y),
      t_dtype = Float32\<rparr>"
  by (cases "shape y") (simp_all add: squeeze0_def ge_float_def map_t_def)

lemma nonzero_binarized:
  "nonzero (unsqueeze0 \<lparr>shape = sh,
       vals = map (\<lambda>v. if fl_ge (fsigmoid v) a then Fin 1 else Fin 0) xs, t_dtype = dt\<rparr>) =
     map (unravel (1 # sh)) (filter (\<lambda>k. fl_ge (fsigmoid (xs ! k)) a) [0..<length xs])"
proof -
  have "filter (\<lambda>k. map (\<lambda>v. if fl_ge (fsigmoid v) a then Fin 1 else Fin 0) xs ! k \<noteq> Fin 0)
          [0..<length xs]
      = filter (\<lambda>k. fl_ge (fsigmoid (xs ! k)) a) [0..<length xs]"
    by (rule filter_cong) auto
  then show ?thesis by (simp add: nonzero_def unsqueeze0_def)
qed

text \<open>
  C1.  With \<^verbatim>\<open>return_index=True\<close>, \<^verbatim>\<open>decode_mesh\<close> returns, for every batch item of the
  decoder output, the coordinates of exactly the elements whose sigmoid is at least the
  caller's \<^verbatim>\<open>mc_threshold\<close>.  Every call of \<^verbatim>\<open>dense2mesh\<close> hands marching cubes, for
  every batch item, the volume that is one where the sigmoid is at least \<open>0.1\<close> and zero
  elsewhere, whatever \<^verbatim>\<open>mc_threshold\<close> is, and passes \<^verbatim>\<open>mc_threshold\<close> on unchanged as the
  level; \<^verbatim>\<open>decode_mesh\<close> with \<^verbatim>\<open>return_index=False\<close> is such a call.
\<close>

theorem C1_thresholds:
  "decode_mesh nf mc self latents R thr True =
     bindE (Decoder_forward nf (vae_decoder self) latents) (\<lambda>x.
     bindE (len_t x) (\<lambda>n.
       Inr (Indices (map (\<lambda>i.
         map (unravel (1 # shape (squeeze0 (select0 x i))))
           (filter (\<lambda>k. fl_ge (fsigmoid (vals (select0 x i) ! k)) thr)
              [0..<length (vals (select0 x i))])) [0..<n]))))
   \<and> dense2mesh mc self x R thr =
     bindE (len_t x) (\<lambda>n.
       mapE (\<lambda>i.
         bindE (mc \<lparr>shape = shape (squeeze0 (select0 x i)),
                    vals = map (\<lambda>v. if fl_ge (fsigmoid v) (1 / 10) then Fin 1 else Fin 0)
                             (vals (select0 x i)),
                    t_dtype = Float32\<rparr> thr)
           (\<lambda>(vertices, faces).
              Inr \<lparr>m_vertices = rescale vertices R, m_faces = faces\<rparr>)) [0..<n])
   \<and> decode_mesh nf mc self latents R thr False =
     bindE (Decoder_forward nf (vae_decoder self) latents) (\<lambda>x.
     bindE (dense2mesh mc self x R thr) (\<lambda>meshes. Inr (Meshes meshes)))"
  by (simp add: decode_mesh_def dense2mesh_def Let_def squeeze0_binarize nonzero_binarized
      cong: if_cong)

section \<open>The range of the mesh vertices\<close>

lemma mapE_Inr:
  "mapE f xs = Inr ys \<Longrightarrow> \<forall>y\<in>set ys. \<exists>x\<in>set xs. f x = Inr y"
proof (induction xs arbitrary: ys)
  case Nil
  then show ?case by simp
next
  case (Cons x xs)
  then show ?case
    by (cases "f x"; cases "mapE f xs") auto
qed

lemma squeeze0_shape_subset: "set (shape (squeeze0 y)) \<subseteq> set (shape y)"
  by (cases "shape y") (auto simp: squeeze0_def)

lemma rescale_in_range:
  assumes R: "0 < R" and v: "\<forall>a\<in>set v. 0 \<le> a \<and> a \<le> real_of_int R"
    and c: "c \<in> set (map (\<lambda>a. if R = 0 then NonFinite else Finite (a / real_of_int R * 2 - 1)) v)"
  shows "\<exists>r. c = Finite r \<and> - 1 \<le> r \<and> r \<le> 1"
proof -
  from c obtain a where a: "a \<in> set v" "c = Finite (a / real_of_int R * 2 - 1)"
    using R by auto
  define q where "q = a / real_of_int R"
  have "0 \<le> a" "a \<le> real_of_int R" using v a(1) by auto
  moreover have "0 < real_of_int R" using R by simp
  ultimately have q: "0 \<le> q" "q \<le> 1"
    by (simp_all add: q_def divide_le_eq)
  have "- 1 \<le> q * 2 - 1" "q * 2 - 1 \<le> 1"
    using q by linarith+
  then show ?thesis using a(2) unfolding q_def by blast
qed

text \<open>
  C8, as the code has it.  \<^verbatim>\<open>dense2mesh\<close> divides by the caller's \<^verbatim>\<open>voxel_resolution\<close> and
  never compares it with the grid.  With \<open>R > 0\<close>, on a grid none of whose extents exceeds
  \<open>R + 1\<close> (an \<open>R x R x R\<close> grid in particular), and with marching cubes returning
  vertices inside the volume, every vertex coordinate \<open>v / R * 2 - 1\<close> of every mesh lies
  in \<open>[-1, 1]\<close>.
\<close>

theorem C8_vertices_in_range:
  assumes mc: "mc_within_volume mc"
    and R: "0 < R"
    and grid: "\<forall>n\<in>set (tl (shape x)). int n \<le> R + 1"
    and run: "dense2mesh mc self x R thr = Inr meshes"
  shows "\<forall>m\<in>set meshes. \<forall>v\<in>set (m_vertices m). \<forall>c\<in>set v.
           \<exists>r. c = Finite r \<and> - 1 \<le> r \<and> r \<le> 1"
proof (intro ballI)
  fix m v c
  assume m: "m \<in> set meshes" and v: "v \<in> set (m_vertices m)" and c: "c \<in> set v"
  from run obtain n where n: "len_t x = Inr n"
    and ms: "mapE (\<lambda>i.
       let occ = map_t fsigmoid (select0 x i);
           occ = squeeze0 (ge_float occ 0.1)
       in bindE (mc occ thr) (\<lambda>(vertices, faces).
          let vertices = rescale vertices R
          in Inr \<lparr>m_vertices = vertices, m_faces = faces\<rparr>)) [0..<n] = Inr meshes"
    by (cases "len_t x") (simp_all add: dense2mesh_def)
  from mapE_Inr [OF ms] m obtain i where
    i: "(let occ = map_t fsigmoid (select0 x i);
           occ = squeeze0 (ge_float occ 0.1)
       in bindE (mc occ thr) (\<lambda>(vertices, faces).
          let vertices = rescale vertices R
          in Inr \<lparr>m_vertices = vertices, m_faces = faces\<rparr>)) = Inr m"
    by blast
  define occ where "occ = squeeze0 (ge_float (map_t fsigmoid (select0 x i)) 0.1)"
  from i obtain vs fs where call: "mc occ thr = Inr (vs, fs)"
    and mv: "m_vertices m = rescale vs R"
    by (cases "mc occ thr") (auto simp: Let_def occ_def)
  have sh: "set (shape occ) \<subseteq> set (tl (shape x))"
    unfolding occ_def squeeze0_binarize
    using squeeze0_shape_subset [of "select0 x i"] by (simp add: select0_def Let_def)
  from v mv obtain w where w: "w \<in> set vs"
    and vw: "v = map (\<lambda>a. if R = 0 then NonFinite else Finite (a / real_of_int R * 2 - 1)) w"
    by (auto simp: rescale_def)
  from mc call w have len: "length w = length (shape occ)"
    and inside: "\<forall>j<length w. 0 \<le> w ! j \<and> w ! j \<le> real (shape occ ! j) - 1"
    unfolding mc_within_volume_def by blast+
  have "\<forall>a\<in>set w. 0 \<le> a \<and> a \<le> real_of_int R"
  proof
    fix a assume "a \<in> set w"
    then obtain j where j: "j < length w" "a = w ! j" by (auto simp: in_set_conv_nth)
    then have "shape occ ! j \<in> set (tl (shape x))" using len sh by auto
    then have "int (shape occ ! j) \<le> R + 1" using grid by blast
    then have "real (shape occ ! j) - 1 \<le> real_of_int R" by linarith
    then show "0 \<le> a \<and> a \<le> real_of_int R" using inside j by fastforce
  qed
  from rescale_in_range [OF R this] c vw
  show "\<exists>r. c = Finite r \<and> - 1 \<le> r \<and> r \<le> 1" by blast
qed

lemma sigmoid_0: "sigmoid 0 = 1 / 2"
  by (simp add: sigmoid_def)

lemma sigmoid_minus_9: "\<not> 1 / 10 \<le> sigmoid (- 9)"
proof -
  have "1 + (9::real) \<le> exp 9" by (rule exp_ge_add_one_self)
  then have "(11::real) \<le> 1 + exp 9" by simp
  then have "1 / (1 + exp (9::real)) \<le> 1 / 11"
    by (intro divide_left_mono) simp_all
  then show ?thesis by (simp add: sigmoid_def)
qed

lemma occupancy_single_voxel:
  "squeeze0 (ge_float (map_t fsigmoid
       (select0 \<lparr>shape = [1, 1, 3, 3, 3],
            vals = replicate 13 (Fin (- 9)) @ [Fin 0] @ replicate 13 (Fin (- 9)),
            t_dtype = Float32\<rparr> 0))
       0.1) = single_voxel"
  unfolding squeeze0_binarize
  using sigmoid_minus_9
  by (simp add: select0_def squeeze0_def single_voxel_def sigmoid_0)

lemma mc_single_voxel_within: "mc_within_volume mc_single_voxel"
  unfolding mc_within_volume_def mc_single_voxel_def
  by (auto simp: single_voxel_def less_Suc_eq nth_Cons')

lemma dense2mesh_single_voxel:
  "dense2mesh mc_single_voxel self
     \<lparr>shape = [1, 1, 3, 3, 3],
            vals = replicate 13 (Fin (- 9)) @ [Fin 0] @ replicate 13 (Fin (- 9)),
            t_dtype = Float32\<rparr> R (1 / 2)
   = Inr [\<lparr>m_vertices = rescale [[1 / 2, 1, 1], [1, 1 / 2, 1], [1, 1, 1 / 2],
                                 [1, 1, 3 / 2], [1, 3 / 2, 1], [3 / 2, 1, 1]] R,
           m_faces = [[0, 1, 2], [0, 2, 4], [0, 4, 3], [0, 3, 1],
                      [5, 2, 1], [5, 4, 2], [5, 3, 4], [5, 1, 3]]\<rparr>]"
  using occupancy_single_voxel
  by (simp add: dense2mesh_def len_t_def Let_def mc_single_voxel_def)

theorem C8_witness:
  "\<forall>self. mc_within_volume mc_single_voxel \<and> (0::int) < 3
     \<and> dense2mesh mc_single_voxel self
          \<lparr>shape = [1, 1, 3, 3, 3],
            vals = replicate 13 (Fin (- 9)) @ [Fin 0] @ replicate 13 (Fin (- 9)),
            t_dtype = Float32\<rparr>
          3 (1 / 2)
        = Inr [\<lparr>m_vertices =
                  [[Finite (- 2 / 3), Finite (- 1 / 3), Finite (- 1 / 3)],
                   [Finite (- 1 / 3), Finite (- 2 / 3), Finite (- 1 / 3)],
                   [Finite (- 1 / 3), Finite (- 1 / 3), Finite (- 2 / 3)],
                   [Finite (- 1 / 3), Finite (- 1 / 3), Finite 0],
                   [Finite (- 1 / 3), Finite 0, Finite (- 1 / 3)],
                   [Finite 0, Finite (- 1 / 3), Finite (- 1 / 3)]],
                m_faces = [[0, 1, 2], [0, 2, 4], [0, 4, 3], [0, 3, 1],
                           [5, 2, 1], [5, 4, 2], [5, 3, 4], [5, 1, 3]]\<rparr>]
     \<and> (\<exists>r. Finite (- 2 / 3) = Finite r \<and> - 1 \<le> r \<and> r \<le> 1)"
proof
  fix self
  let ?x = "\<lparr>shape = [1, 1, 3, 3, 3],
            vals = replicate 13 (Fin (- 9)) @ [Fin 0] @ replicate 13 (Fin (- 9)),
            t_dtype = Float32\<rparr>"
  let ?ms = "[\<lparr>m_vertices = rescale [[1 / 2, 1, 1], [1, 1 / 2, 1], [1, 1, 1 / 2],
                                 [1, 1, 3 / 2], [1, 3 / 2, 1], [3 / 2, 1, 1]] 3,
           m_faces = [[0, 1, 2], [0, 2, 4], [0, 4, 3], [0, 3, 1],
                      [5, 2, 1], [5, 4, 2], [5, 3, 4], [5, 1, 3::nat]]\<rparr>]"
  have run: "dense2mesh mc_single_voxel self ?x 3 (1 / 2) = Inr ?ms"
    by (rule dense2mesh_single_voxel)
  have grid: "\<forall>n\<in>set (tl (shape ?x)). int n \<le> 3 + 1" by simp
  have R: "(0::int) < 3" by simp
  from C8_vertices_in_range [OF mc_single_voxel_within R grid run]
  have "\<exists>r. Finite (- 2 / 3) = Finite r \<and> - 1 \<le> r \<and> r \<le> 1"
    by (simp add: rescale_def)
  then show "mc_within_volume mc_single_voxel \<and> (0::int) < 3
     \<and> dense2mesh mc_single_voxel self ?x 3 (1 / 2)
        = Inr [\<lparr>m_vertices =
                  [[Finite (- 2 / 3), Finite (- 1 / 3), Finite (- 1 / 3)],
                   [Finite (- 1 / 3), Finite (- 2 / 3), Finite (- 1 / 3)],
                   [Finite (- 1 / 3), Finite (- 1 / 3), Finite (- 2 / 3)],
                   [Finite (- 1 / 3), Finite (- 1 / 3), Finite 0],
                   [Finite (- 1 / 3), Finite 0, Finite (- 1 / 3)],
                   [Finite 0, Finite (- 1 / 3), Finite (- 1 / 3)]],
                m_faces = [[0, 1, 2], [0, 2, 4], [0, 4, 3], [0, 3, 1],
                           [5, 2, 1], [5, 4, 2], [5, 3, 4], [5, 1, 3]]\<rparr>]
     \<and> (\<exists>r. Finite (- 2 / 3) = Finite r \<and> - 1 \<le> r \<and> r \<le> 1)"
    using mc_single_voxel_within run by (simp add: rescale_def)
qed

text \<open>
  C8 as stated fails.  The same volume with \<^verbatim>\<open>voxel_resolution=1\<close>: the vertex halfway between the centre and
  its upper neighbour, at \<open>3/2\<close> along the first axis, is mapped to \<open>3/2 / 1 * 2 - 1 = 2\<close>.
\<close>

theorem C8_counterexample:
  "\<forall>self. dense2mesh mc_single_voxel self
          \<lparr>shape = [1, 1, 3, 3, 3],
            vals = replicate 13 (Fin (- 9)) @ [Fin 0] @ replicate 13 (Fin (- 9)),
            t_dtype = Float32\<rparr>
          1 (1 / 2)
        = Inr [\<lparr>m_vertices =
                  [[Finite 0, Finite 1, Finite 1],
                   [Finite 1, Finite 0, Finite 1],
                   [Finite 1, Finite 1, Finite 0],
                   [Finite 1, Finite 1, Finite 2],
                   [Finite 1, Finite 2, Finite 1],
                   [Finite 2, Finite 1, Finite 1]],
                m_faces = [[0, 1, 2], [0, 2, 4], [0, 4, 3], [0, 3, 1],
                           [5, 2, 1], [5, 4, 2], [5, 3, 4], [5, 1, 3]]\<rparr>]
     \<and> \<not> (2::real) \<le> 1"
  using dense2mesh_single_voxel [where R = 1] by (simp add: rescale_def)

section \<open>Shapes and dtypes through the forward passes\<close>

lemma shape_tab5 [simp]: "shape (tab5 dt B C D H W f) = [B, C, D, H, W]"
  by (simp add: tab5_def)

lemma dtype_tab5 [simp]: "t_dtype (tab5 dt B C D H W f) = dt"
  by (simp add: tab5_def)

lemma shape_silu [simp]: "shape (silu x) = shape x"
  by (simp add: silu_def map_t_def)

lemma dtype_silu [simp]: "t_dtype (silu x) = t_dtype x"
  by (simp add: silu_def map_t_def)






lemma zero_module_fields [simp]:
  "c_in_channels (zero_module c) = c_in_channels c"
  "c_out_channels (zero_module c) = c_out_channels c"
  "c_kernel_size (zero_module c) = c_kernel_size c"
  "c_stride (zero_module c) = c_stride c"
  "c_padding (zero_module c) = c_padding c"
  "c_dtype (zero_module c) = c_dtype c"
  by (simp_all add: zero_module_def)























section \<open>Where a forward pass raises\<close>



section \<open>Spatial scaling of the encoder and the decoder\<close>




section \<open>The zeroed convolution\<close>




























section \<open>A fresh residual block is the identity on finite values\<close>




end
